theory Spec2Isabelle
  imports Complex_Main
begin

section \<open>JavaScript values and library functions used by the code\<close>

text \<open>
  JavaScript numbers are modelled as \<^typ>\<open>real\<close>: the arithmetic of the program is read
  exactly, without floating-point rounding, and a number column of the store is never NaN.
  Timestamps (\<open>new Date(s).getTime()\<close>, \<open>Date.now()\<close>) are \<^typ>\<open>int\<close> milliseconds.
  Strings are \<^typ>\<open>string\<close>; the empty string is the falsy string, and it also stands for a
  field that is missing from a request body.
\<close>

text \<open>\<open>x || d\<close> on numbers: \<open>0\<close> (and NaN, which a real never is) is falsy.\<close>

definition js_or :: "real \<Rightarrow> real \<Rightarrow> real" where
  "js_or x d = (if x = 0 then d else x)"

definition isNaN :: "real \<Rightarrow> bool" where
  "isNaN x = False"

text \<open>\<open>Math.round\<close>: the nearest integer, halves rounded up.\<close>

definition Math_round :: "real \<Rightarrow> real" where
  "Math_round x = real_of_int \<lfloor>x + 1 / 2\<rfloor>"

text \<open>\<open>Math.atan2(y, x)\<close>.\<close>

definition atan2 :: "real \<Rightarrow> real \<Rightarrow> real" where
  "atan2 y x =
     (if 0 < x then arctan (y / x)
      else if x < 0 then (if 0 \<le> y then arctan (y / x) + pi else arctan (y / x) - pi)
      else if 0 < y then pi / 2
      else if y < 0 then - pi / 2
      else 0)"

text \<open>\<open>String.prototype.toLowerCase\<close> on ASCII letters, and \<open>String.prototype.includes\<close>.\<close>

definition toLowerChar :: "char \<Rightarrow> char" where
  "toLowerChar c =
     (let n = (of_char c :: nat) in if 65 \<le> n \<and> n \<le> 90 then char_of (n + 32) else c)"

definition toLowerCase :: "string \<Rightarrow> string" where
  "toLowerCase s = map toLowerChar s"

fun str_includes :: "string \<Rightarrow> string \<Rightarrow> bool" where
  "str_includes [] sub = (sub = [])"
| "str_includes (c # cs) sub = (take (length sub) (c # cs) = sub \<or> str_includes cs sub)"

text \<open>
  \<open>.order(col, { ascending: false })\<close> of the store: the rows by descending key. (The store
  leaves the order of rows with equal keys open; the model keeps one fixed order.)
\<close>

definition order_desc :: "('a \<Rightarrow> 'k::linorder) \<Rightarrow> 'a list \<Rightarrow> 'a list" where
  "order_desc key rows = rev (sort_key key rows)"

text \<open>What a \<open>throw\<close> carries. \<open>message\<close> is \<open>error.message\<close>.\<close>

datatype js_error = Error string | ReferenceError string

fun message :: "js_error \<Rightarrow> string" where
  "message (Error m) = m"
| "message (ReferenceError x) =
     ''Cannot access '' @ [CHR 0x27] @ x @ [CHR 0x27] @ '' before initialization''"

section \<open>Great-circle distance\<close>

text \<open>
  \<open>calculateDistance\<close> and \<open>toRadians\<close>, as the edge functions define them (the same text in
  \<open>find-nearby-drivers/index.ts\<close> and in the driver API).
\<close>

definition toRadians :: "real \<Rightarrow> real" where
  "toRadians degrees = degrees * (pi / 180)"

definition calculateDistance :: "real \<Rightarrow> real \<Rightarrow> real \<Rightarrow> real \<Rightarrow> real" where
  "calculateDistance lat1 lon1 lat2 lon2 =
     (let R = 6371;
          dLat = toRadians (lat2 - lat1);
          dLon = toRadians (lon2 - lon1);
          a = sin (dLat / 2) * sin (dLat / 2) +
              cos (toRadians lat1) * cos (toRadians lat2) *
              sin (dLon / 2) * sin (dLon / 2);
          c = 2 * atan2 (sqrt a) (sqrt (1 - a));
          distance = R * c
      in distance)"

section \<open>The record store\<close>

record ride =
  r_customer_id :: string
  r_driver_id :: "string option"
  r_pickup_latitude :: real
  r_pickup_longitude :: real
  r_pickup_address :: string
  r_destination_address :: string
  r_booking_type :: string
  r_vehicle_type :: string
  r_fare_amount :: real
  r_status :: string
  r_updated_at :: int
  r_scheduled_time :: "int option"
  r_selected_hours :: "real option"
  r_distance_km :: "real option"
  r_duration_minutes :: "real option"

record vehicle =
  v_vehicle_type :: string
  v_registration_number :: string

record driver =
  d_id :: string
  d_user_id :: string
  d_status :: string
  d_is_verified :: bool
  d_rating :: real
  d_total_rides :: real
  d_name :: "string option"
  d_vehicles :: "vehicle option"

record live_location =
  l_user_id :: string
  l_latitude :: real
  l_longitude :: real
  l_updated_at :: int

record notification =
  n_user_id :: string
  n_type :: string
  n_title :: string
  n_status :: string
  n_ride_id :: string
  n_vehicle_type :: string
  n_distance :: real

record zone =
  z_name :: string
  z_center_latitude :: real
  z_center_longitude :: real
  z_radius_km :: real
  z_is_active :: bool

record fare_matrix_row =
  fm_booking_type :: string
  fm_vehicle_type :: string
  fm_base_fare :: real
  fm_per_km_rate :: real
  fm_minimum_fare :: real
  fm_surge_multiplier :: real
  fm_platform_fee :: real
  fm_is_active :: bool
  fm_created_at :: int

record rental_fare_row =
  rf_vehicle_type :: string
  rf_package_name :: string
  rf_duration_hours :: real
  rf_km_included :: real
  rf_base_fare :: real
  rf_extra_km_rate :: real
  rf_is_popular :: bool
  rf_is_active :: bool

record outstation_fare_row =
  of_vehicle_type :: string
  of_base_fare :: real
  of_per_km_rate :: real
  of_driver_allowance_per_day :: real
  of_daily_km_limit :: real
  of_is_active :: bool
  of_created_at :: int

record airport_fare_row =
  af_vehicle_type :: string
  af_hosur_to_airport_fare :: real
  af_airport_to_hosur_fare :: real
  af_is_active :: bool
  af_created_at :: int

record fare_details =
  actual_distance_km :: real
  actual_duration_minutes :: real
  base_km_included :: "real option"
  extra_km :: "real option"
  per_km_rate :: real
  surge_multiplier :: "real option"
  platform_fee_flat :: "real option"
  zone_detected :: "string option"
  is_inner_zone :: "bool option"
  minimum_fare :: "real option"
  days_calculated :: "real option"
  daily_km_limit :: "real option"
  within_allowance :: "bool option"
  package_name :: "string option"
  total_km_travelled :: "real option"
  km_allowance :: "real option"
  direction :: "string option"

record FareBreakdown =
  booking_type :: string
  vehicle_type :: string
  base_fare :: real
  distance_fare :: real
  time_fare :: real
  surge_charges :: real
  deadhead_charges :: real
  platform_fee :: real
  gst_on_charges :: real
  gst_on_platform_fee :: real
  extra_km_charges :: real
  driver_allowance :: real
  total_fare :: real
  details :: fare_details

text \<open>
  A row of \<open>trip_completions\<close>. Its fare columns (\<open>base_fare\<close>, \<open>distance_fare\<close>, ...) are
  copies of the fields of the breakdown stored in \<open>fare_breakdown\<close>.
\<close>

record trip_completion =
  tc_ride_id :: string
  tc_booking_type :: string
  tc_vehicle_type :: string
  tc_actual_distance_km :: real
  tc_actual_duration_minutes :: real
  tc_total_fare :: real
  tc_fare_breakdown :: FareBreakdown

text \<open>
  The store: \<open>rides\<close> is keyed by its primary key \<open>id\<close> (so a ride row does not repeat
  its id); the other tables are lists of rows.
\<close>

record db =
  rides :: "string \<rightharpoonup> ride"
  drivers :: "driver list"
  live_locations :: "live_location list"
  notifications :: "notification list"
  zones :: "zone list"
  fare_matrix :: "fare_matrix_row list"
  rental_fares :: "rental_fare_row list"
  outstation_fares :: "outstation_fare_row list"
  airport_fares :: "airport_fare_row list"
  trip_completions :: "trip_completion list"

text \<open>
  The outcome of the store calls that the fare service checks for an \<open>error\<close>: the zones
  query, the query of the rate table of the policy, and the insert of the completion record.
\<close>

record store_errors =
  zonesError :: bool
  configError :: bool
  completionError :: bool

section \<open>FareCalculationService\<close>

text \<open>
  \<open>calculateDistance\<close> of the service is imported from \<open>utils/maps\<close>; it is the parameter
  \<open>distanceFn\<close> of the functions below.
\<close>

type_synonym distance_fn = "real \<Rightarrow> real \<Rightarrow> real \<Rightarrow> real \<Rightarrow> real"

record deadhead_result =
  deadheadCharges :: real
  zoneDetected :: string
  isInnerZone :: bool

definition is_inner_name :: "string \<Rightarrow> bool" where
  "is_inner_name name =
     (str_includes (toLowerCase name) ''inner'' \<or> str_includes (toLowerCase name) ''ring'')"

definition calculateDeadheadCharges ::
  "distance_fn \<Rightarrow> real \<Rightarrow> real \<Rightarrow> real \<Rightarrow> zone list \<Rightarrow> deadhead_result" where
  "calculateDeadheadCharges distanceFn dropLat dropLng perKmRate zs =
     (case find (\<lambda>z. is_inner_name (z_name z)) zs of
        None \<Rightarrow> \<lparr>deadheadCharges = 0, zoneDetected = ''Unknown'', isInnerZone = False\<rparr>
      | Some innerZone \<Rightarrow>
          (let distanceToInnerCenter =
                 distanceFn dropLat dropLng (z_center_latitude innerZone) (z_center_longitude innerZone)
           in if distanceToInnerCenter \<le> z_radius_km innerZone
              then \<lparr>deadheadCharges = 0, zoneDetected = z_name innerZone, isInnerZone = True\<rparr>
              else (let distanceToInnerBoundary = distanceToInnerCenter - z_radius_km innerZone;
                        charges = (distanceToInnerBoundary / 2) * perKmRate
                    in \<lparr>deadheadCharges = charges, zoneDetected = ''Outside Inner Zone'',
                        isInnerZone = False\<rparr>)))"

text \<open>
  \<open>calculateRegularFare\<close>. The statement that computes \<open>chargesSubtotal\<close> reads
  \<open>validBaseFare\<close>, \<open>validDistanceFare\<close>, \<open>validDeadheadCharges\<close> and \<open>validSurgeCharges\<close>, whose
  \<open>const\<close> declarations come twenty lines further down in the same block: the read of
  \<open>validBaseFare\<close> is in the temporal dead zone of the binding and throws a ReferenceError.
  Everything after that statement (the GST, the total, the returned breakdown) is not reached.
\<close>

definition calculateRegularFare ::
  "distance_fn \<Rightarrow> store_errors \<Rightarrow> db \<Rightarrow> string \<Rightarrow> real \<Rightarrow> real \<Rightarrow> real \<Rightarrow> real \<Rightarrow> real \<Rightarrow> real
     \<Rightarrow> zone list \<Rightarrow> js_error + FareBreakdown" where
  "calculateRegularFare distanceFn errs store vehicleType actualDistanceKm actualDurationMinutes
       pickupLat pickupLng dropLat dropLng zs =
     (if configError errs then Inl (Error ''Fare configuration not found'')
      else case order_desc fm_created_at
             (filter (\<lambda>m. fm_booking_type m = ''regular'' \<and> fm_vehicle_type m = vehicleType
                           \<and> fm_is_active m) (fare_matrix store)) of
        [] \<Rightarrow> Inl (Error ''Fare configuration not found for this vehicle type'')
      | fareMatrix # _ \<Rightarrow>
          (let rawPlatformFee = fm_platform_fee fareMatrix;
               numberConversion = rawPlatformFee;
               parseFloatConversion = rawPlatformFee;
               directAssignment = rawPlatformFee;
               platformFee =
                 (if \<not> isNaN parseFloatConversion then parseFloatConversion
                  else if \<not> isNaN numberConversion then numberConversion
                  else if \<not> isNaN directAssignment then directAssignment
                  else 10);
               baseFare = js_or (fm_base_fare fareMatrix) 0;
               baseKmIncluded = 4;
               perKmRate = js_or (fm_per_km_rate fareMatrix) 0;
               surgeMultiplier = js_or (fm_surge_multiplier fareMatrix) 1;
               extraKm = max 0 (actualDistanceKm - baseKmIncluded);
               distanceFare = extraKm * perKmRate;
               deadheadResult = calculateDeadheadCharges distanceFn dropLat dropLng perKmRate zs;
               deadheadCharges = js_or (deadheadCharges deadheadResult) 0;
               subtotalBeforeSurge = baseFare + distanceFare + deadheadCharges;
               surgeCharges = subtotalBeforeSurge * (surgeMultiplier - 1)
           in Inl (ReferenceError ''validBaseFare'')))"

definition calculateRentalFare ::
  "store_errors \<Rightarrow> db \<Rightarrow> string \<Rightarrow> real \<Rightarrow> real \<Rightarrow> real \<Rightarrow> js_error + FareBreakdown" where
  "calculateRentalFare errs store vehicleType actualDistanceKm actualDurationMinutes selectedHours =
     (if configError errs then Inl (Error ''Rental fare configuration not found'')
      else case take 1 (order_desc rf_is_popular
             (filter (\<lambda>f. rf_vehicle_type f = vehicleType \<and> rf_duration_hours f = selectedHours
                           \<and> rf_is_active f) (rental_fares store))) of
        [] \<Rightarrow> Inl (Error ''Rental fare configuration not found'')
      | rentalFare # _ \<Rightarrow>
          (let baseFare = rf_base_fare rentalFare;
               kmIncluded = rf_km_included rentalFare;
               extraKmRate = rf_extra_km_rate rentalFare;
               exceeds = (actualDistanceKm > kmIncluded);
               extraKmCharges = (if exceeds then (actualDistanceKm - kmIncluded) * extraKmRate else 0);
               withinAllowance = (\<not> exceeds);
               totalFare = baseFare + extraKmCharges
           in Inr \<lparr>booking_type = ''rental'', vehicle_type = vehicleType, base_fare = baseFare,
                   distance_fare = 0, time_fare = 0, surge_charges = 0, deadhead_charges = 0,
                   platform_fee = 0, gst_on_charges = 0, gst_on_platform_fee = 0,
                   extra_km_charges = extraKmCharges, driver_allowance = 0, total_fare = totalFare,
                   details = \<lparr>actual_distance_km = actualDistanceKm,
                     actual_duration_minutes = actualDurationMinutes,
                     base_km_included = Some kmIncluded,
                     extra_km = Some (max 0 (actualDistanceKm - kmIncluded)),
                     per_km_rate = extraKmRate, surge_multiplier = None, platform_fee_flat = None,
                     zone_detected = None, is_inner_zone = None, minimum_fare = None,
                     days_calculated = None, daily_km_limit = None,
                     within_allowance = Some withinAllowance,
                     package_name = Some (rf_package_name rentalFare),
                     total_km_travelled = None, km_allowance = None, direction = None\<rparr>\<rparr>))"

text \<open>
  \<open>calculateOutstationFare\<close>. \<open>now\<close> is the clock (\<open>new Date()\<close>) and \<open>scheduledTime\<close> the
  parsed \<open>scheduled_time\<close> of the ride, \<open>None\<close> for null.
\<close>

definition numberOfDays :: "int \<Rightarrow> int option \<Rightarrow> real" where
  "numberOfDays now scheduledTime =
     (let startTime = (case scheduledTime of Some t \<Rightarrow> t | None \<Rightarrow> now);
          endTime = now;
          durationHours = real_of_int \<bar>endTime - startTime\<bar> / (1000 * 60 * 60)
      in max 1 (real_of_int \<lceil>durationHours / 24\<rceil>))"

definition calculateOutstationFare ::
  "store_errors \<Rightarrow> db \<Rightarrow> int \<Rightarrow> string \<Rightarrow> real \<Rightarrow> real \<Rightarrow> int option \<Rightarrow> js_error + FareBreakdown" where
  "calculateOutstationFare errs store now vehicleType actualDistanceKm actualDurationMinutes
       scheduledTime =
     (if configError errs then Inl (Error ''Outstation fare configuration not found'')
      else case take 1 (order_desc of_created_at
             (filter (\<lambda>f. of_vehicle_type f = vehicleType \<and> of_is_active f)
                (outstation_fares store))) of
        [] \<Rightarrow> Inl (Error ''Outstation fare configuration not found'')
      | outstationConfig # _ \<Rightarrow>
          (let baseFare = of_base_fare outstationConfig;
               perKmRate = of_per_km_rate outstationConfig;
               driverAllowancePerDay = of_driver_allowance_per_day outstationConfig;
               dailyKmLimit = of_daily_km_limit outstationConfig;
               days = numberOfDays now scheduledTime;
               totalKmTravelled = actualDistanceKm * 2;
               totalKmAllowance = dailyKmLimit * days;
               driverAllowance = days * driverAllowancePerDay;
               withinAllowance = (totalKmTravelled \<le> totalKmAllowance);
               kmFare = (if withinAllowance then dailyKmLimit * days * perKmRate
                         else totalKmTravelled * perKmRate);
               totalFare = baseFare + kmFare + driverAllowance
           in Inr \<lparr>booking_type = ''outstation'', vehicle_type = vehicleType, base_fare = baseFare,
                   distance_fare = kmFare, time_fare = 0, surge_charges = 0, deadhead_charges = 0,
                   platform_fee = 0, gst_on_charges = 0, gst_on_platform_fee = 0,
                   extra_km_charges = 0, driver_allowance = driverAllowance, total_fare = totalFare,
                   details = \<lparr>actual_distance_km = actualDistanceKm,
                     actual_duration_minutes = actualDurationMinutes,
                     base_km_included = None, extra_km = None,
                     per_km_rate = perKmRate, surge_multiplier = None, platform_fee_flat = None,
                     zone_detected = None, is_inner_zone = None, minimum_fare = None,
                     days_calculated = Some days, daily_km_limit = Some dailyKmLimit,
                     within_allowance = Some withinAllowance, package_name = None,
                     total_km_travelled = Some totalKmTravelled,
                     km_allowance = Some totalKmAllowance, direction = None\<rparr>\<rparr>))"

definition calculateAirportFare ::
  "distance_fn \<Rightarrow> store_errors \<Rightarrow> db \<Rightarrow> string \<Rightarrow> real \<Rightarrow> real \<Rightarrow> real \<Rightarrow> real
     \<Rightarrow> js_error + FareBreakdown" where
  "calculateAirportFare distanceFn errs store vehicleType pickupLat pickupLng dropLat dropLng =
     (if configError errs then Inl (Error ''Airport fare configuration not found'')
      else case take 1 (order_desc af_created_at
             (filter (\<lambda>f. af_vehicle_type f = vehicleType \<and> af_is_active f)
                (airport_fares store))) of
        [] \<Rightarrow> Inl (Error ''Airport fare configuration not found'')
      | airportConfig # _ \<Rightarrow>
          (let cityCenterLat = 12.7401984;
               cityCenterLng = 77.824;
               pickupToCenter = distanceFn pickupLat pickupLng cityCenterLat cityCenterLng;
               dropToCenter = distanceFn dropLat dropLng cityCenterLat cityCenterLng;
               isHosurToAirport = (pickupToCenter < dropToCenter);
               fare = (if isHosurToAirport then af_hosur_to_airport_fare airportConfig
                       else af_airport_to_hosur_fare airportConfig);
               dir = (if isHosurToAirport then ''Hosur to Airport'' else ''Airport to Hosur'')
           in Inr \<lparr>booking_type = ''airport'', vehicle_type = vehicleType, base_fare = fare,
                   distance_fare = 0, time_fare = 0, surge_charges = 0, deadhead_charges = 0,
                   platform_fee = 0, gst_on_charges = 0, gst_on_platform_fee = 0,
                   extra_km_charges = 0, driver_allowance = 0, total_fare = fare,
                   details = \<lparr>actual_distance_km = distanceFn pickupLat pickupLng dropLat dropLng,
                     actual_duration_minutes = 0,
                     base_km_included = None, extra_km = None,
                     per_km_rate = 0, surge_multiplier = None, platform_fee_flat = None,
                     zone_detected = None, is_inner_zone = None, minimum_fare = None,
                     days_calculated = None, daily_km_limit = None,
                     within_allowance = None, package_name = None,
                     total_km_travelled = None, km_allowance = None,
                     direction = Some dir\<rparr>\<rparr>))"

text \<open>
  \<open>calculateAndStoreTripFare\<close>: the whole body is inside \<open>try\<close>, and the \<open>catch\<close> turns every
  throw into \<open>{ success: false, error: error.message }\<close>. It returns the store it leaves behind
  and the result object.
\<close>

record fare_result =
  success :: bool
  fareBreakdown :: "FareBreakdown option"
  error :: "string option"

definition failure :: "string \<Rightarrow> fare_result" where
  "failure msg = \<lparr>success = False, fareBreakdown = None, error = Some msg\<rparr>"

definition farePolicy ::
  "distance_fn \<Rightarrow> store_errors \<Rightarrow> db \<Rightarrow> int \<Rightarrow> ride \<Rightarrow> real \<Rightarrow> real \<Rightarrow> real \<Rightarrow> real \<Rightarrow> real \<Rightarrow> real
     \<Rightarrow> zone list \<Rightarrow> (js_error + FareBreakdown) option" where
  "farePolicy distanceFn errs store now r actualDistanceKm actualDurationMinutes
       pickupLat pickupLng dropLat dropLng zs =
     (if r_booking_type r = ''regular'' then
        Some (calculateRegularFare distanceFn errs store (r_vehicle_type r) actualDistanceKm
                actualDurationMinutes pickupLat pickupLng dropLat dropLng zs)
      else if r_booking_type r = ''rental'' then
        Some (calculateRentalFare errs store (r_vehicle_type r) actualDistanceKm
                actualDurationMinutes
                (case r_selected_hours r of None \<Rightarrow> 4 | Some h \<Rightarrow> js_or h 4))
      else if r_booking_type r = ''outstation'' then
        Some (calculateOutstationFare errs store now (r_vehicle_type r) actualDistanceKm
                actualDurationMinutes (r_scheduled_time r))
      else if r_booking_type r = ''airport'' then
        Some (calculateAirportFare distanceFn errs store (r_vehicle_type r)
                pickupLat pickupLng dropLat dropLng)
      else None)"

definition calculateAndStoreTripFare ::
  "distance_fn \<Rightarrow> store_errors \<Rightarrow> int \<Rightarrow> db \<Rightarrow> string \<Rightarrow> real \<Rightarrow> real \<Rightarrow> real \<Rightarrow> real \<Rightarrow> real \<Rightarrow> real
     \<Rightarrow> db \<times> fare_result" where
  "calculateAndStoreTripFare distanceFn errs now store rideId actualDistanceKm actualDurationMinutes
       pickupLat pickupLng dropLat dropLng =
     (case rides store rideId of
        None \<Rightarrow> (store, failure ''Ride not found'')
      | Some r \<Rightarrow>
          if zonesError errs then (store, failure ''Failed to fetch zone configuration'')
          else
            (let zs = filter z_is_active (zones store) in
             case farePolicy distanceFn errs store now r actualDistanceKm actualDurationMinutes
                    pickupLat pickupLng dropLat dropLng zs of
               None \<Rightarrow> (store, failure ''Invalid booking type'')
             | Some (Inl e) \<Rightarrow> (store, failure (message e))
             | Some (Inr fb) \<Rightarrow>
                 if completionError errs
                 then (store, failure ''Failed to store trip completion'')
                 else
                   (let completion =
                          \<lparr>tc_ride_id = rideId, tc_booking_type = r_booking_type r,
                           tc_vehicle_type = r_vehicle_type r,
                           tc_actual_distance_km = actualDistanceKm,
                           tc_actual_duration_minutes = actualDurationMinutes,
                           tc_total_fare = total_fare fb, tc_fare_breakdown = fb\<rparr>;
                        store1 = store\<lparr>trip_completions := trip_completions store @ [completion]\<rparr>;
                        store2 = store1\<lparr>rides := (rides store1)(rideId \<mapsto>
                                   r\<lparr>r_fare_amount := total_fare fb,
                                     r_distance_km := Some actualDistanceKm,
                                     r_duration_minutes := Some actualDurationMinutes\<rparr>)\<rparr>
                    in (store2, \<lparr>success = True, fareBreakdown = Some fb, error = None\<rparr>))))"

section \<open>The driver API: dispatch, acceptance, status update\<close>

text \<open>
  The store answers every query (the branches in which the handlers turn an error of a read
  into a 500 response or an empty result are left out), and each of its calls is atomic. An
  update changes the rows that satisfy the filters of the call; \<open>.select()\<close> returns the rows
  updated. A reply is the \<open>{ data, error }\<close> pair the handlers destructure.

  \<open>.single()\<close> answers with the row when exactly one row comes back, and with an error
  otherwise: the client reports an empty result as the error \<open>PGRST116\<close>, the code the
  application itself tests for when a lookup finds no row. The wording of the message of that
  error is the client's and plays no role below.
\<close>

datatype 'a reply = Reply (reply_data: "'a option") (reply_error: "string option")

definition PGRST116_message :: string where
  "PGRST116_message = ''JSON object requested, multiple (or no) rows returned''"

definition single :: "'a list \<Rightarrow> 'a reply" where
  "single rows = (case rows of
                    [row] \<Rightarrow> Reply (Some row) None
                  | _ \<Rightarrow> Reply None (Some PGRST116_message))"

text \<open>
  \<open>.from('rides').update(...).eq('id', ride_id)\<close> with further filters \<open>cond\<close>, and the rows that
  \<open>.select()\<close> returns.
\<close>

definition update_rides ::
  "string \<Rightarrow> (ride \<Rightarrow> bool) \<Rightarrow> (ride \<Rightarrow> ride) \<Rightarrow> db \<Rightarrow> db \<times> ride list" where
  "update_rides ride_id cond upd store =
     (case rides store ride_id of
        None \<Rightarrow> (store, [])
      | Some r \<Rightarrow>
          if cond r then (store\<lparr>rides := (rides store)(ride_id \<mapsto> upd r)\<rparr>, [upd r])
          else (store, []))"

text \<open>The same update ended with \<open>.select().single()\<close>.\<close>

definition update_ride_where ::
  "string \<Rightarrow> (ride \<Rightarrow> bool) \<Rightarrow> (ride \<Rightarrow> ride) \<Rightarrow> db \<Rightarrow> db \<times> ride reply" where
  "update_ride_where ride_id cond upd store =
     (case update_rides ride_id cond upd store of (store1, rows) \<Rightarrow> (store1, single rows))"

definition update_driver_status :: "string \<Rightarrow> string \<Rightarrow> db \<Rightarrow> db" where
  "update_driver_status driver_id status store =
     store\<lparr>drivers := map (\<lambda>d. if d_id d = driver_id then d\<lparr>d_status := status\<rparr> else d)
                         (drivers store)\<rparr>"

text \<open>The JSON responses of the handlers, by HTTP status and shape of the body.\<close>

datatype response =
    BadRequest string
  | NotFound string
  | Conflict string
  | ServerError string
  | OkMessage string
  | OkDispatch nat nat
  | OkRide "ride option"

text \<open>
  A response \<open>OkMessage m\<close> is \<open>200 { success: true, message: m }\<close>;
  \<open>OkDispatch f s\<close> is \<open>200 { success: true, drivers_found: f, notifications_sent: s }\<close>;
  \<open>OkRide r\<close> is \<open>200 { success: true, ride: r }\<close>; \<open>Conflict\<close> is status 409.
\<close>

subsection \<open>findNearbyDrivers of the driver API\<close>

definition latestLocations_api :: "live_location list \<Rightarrow> (string \<rightharpoonup> live_location)" where
  "latestLocations_api locations =
     foldl (\<lambda>m loc.
              case m (l_user_id loc) of
                None \<Rightarrow> m(l_user_id loc \<mapsto> loc)
              | Some existingLocation \<Rightarrow>
                  if l_updated_at loc > l_updated_at existingLocation
                  then m(l_user_id loc \<mapsto> loc) else m)
           Map.empty locations"

text \<open>
  The parameter \<open>vehicleType\<close> is logged and not used otherwise. The result pairs each driver
  kept with \<open>latestLocations.get(driver.user_id)\<close>. \<open>now\<close> is \<open>Date.now()\<close>, read once for the
  whole filter.
\<close>

definition findNearbyDrivers ::
  "db \<Rightarrow> int \<Rightarrow> real \<Rightarrow> real \<Rightarrow> string \<Rightarrow> real \<Rightarrow> (driver \<times> live_location option) list" where
  "findNearbyDrivers store now pickupLat pickupLng vehicleType radiusKm =
     (let ds = filter (\<lambda>d. d_status d = ''online'' \<and> d_is_verified d) (drivers store) in
      if ds = [] then []
      else
        (let driverUserIds = map d_user_id ds;
             locations = take 100 (order_desc l_updated_at
                           (filter (\<lambda>l. l_user_id l \<in> set driverUserIds) (live_locations store)));
             latestLocations = latestLocations_api locations;
             nearbyDrivers =
               filter (\<lambda>d. case latestLocations (d_user_id d) of
                              None \<Rightarrow> False
                            | Some location \<Rightarrow>
                                (let locationAge = now - l_updated_at location in
                                 if locationAge > 30 * 60 * 1000 then False
                                 else calculateDistance pickupLat pickupLng
                                        (l_latitude location) (l_longitude location) \<le> radiusKm))
                      ds
         in map (\<lambda>d. (d, latestLocations (d_user_id d))) nearbyDrivers))"

subsection \<open>handleNotifyDrivers\<close>

text \<open>
  \<open>insertOk\<close> is the notification sink: whether the insert of a notification record succeeds.
  A driver without \<open>location\<close> makes \<open>sendDriverNotification\<close> throw inside its \<open>try\<close>, which
  returns false. Of the record, the model keeps the recipient, the type, title and status, and
  of its \<open>data\<close> the ride id, the vehicle type of the ride and the distance; the message text
  and the other copies of ride fields are left out. The pause between two notifications is
  left out too.
\<close>

definition sendDriverNotification ::
  "(notification \<Rightarrow> bool) \<Rightarrow> db \<Rightarrow> driver \<times> live_location option \<Rightarrow> string \<Rightarrow> ride \<Rightarrow> db \<times> bool" where
  "sendDriverNotification insertOk store drv ride_id r =
     (case snd drv of
        None \<Rightarrow> (store, False)
      | Some location \<Rightarrow>
          (let distance = calculateDistance (r_pickup_latitude r) (r_pickup_longitude r)
                            (l_latitude location) (l_longitude location);
               n = \<lparr>n_user_id = d_user_id (fst drv), n_type = ''ride_request'',
                    n_title = ''New Ride Request'', n_status = ''unread'', n_ride_id = ride_id,
                    n_vehicle_type = r_vehicle_type r, n_distance = distance\<rparr>
           in if insertOk n then (store\<lparr>notifications := notifications store @ [n]\<rparr>, True)
              else (store, False)))"

fun notifyLoop ::
  "(notification \<Rightarrow> bool) \<Rightarrow> string \<Rightarrow> ride \<Rightarrow> (driver \<times> live_location option) list \<Rightarrow> db \<Rightarrow> nat
     \<Rightarrow> db \<times> nat" where
  "notifyLoop insertOk ride_id r [] store notificationsCreated = (store, notificationsCreated)"
| "notifyLoop insertOk ride_id r (drv # rest) store notificationsCreated =
     (case sendDriverNotification insertOk store drv ride_id r of
        (store', notificationSent) \<Rightarrow>
          notifyLoop insertOk ride_id r rest store'
            (if notificationSent then notificationsCreated + 1 else notificationsCreated))"

text \<open>
  The handler awaits the store several times, and other calls can run between two awaits. Its
  store calls are: the read of the ride, on which the status is tested, and the search
  (\<open>notify_read\<close>), which write nothing; the inserts of the notifications (\<open>notifyLoop\<close>); and
  the status write (\<open>set_ride_status\<close>), an update by id with no filter on the status, issued
  when no driver is found (\<open>notify_none_found\<close>) or no notification was created
  (\<open>notify_finish\<close>). \<open>handleNotifyDrivers\<close> is their composition: the handler running alone.
\<close>

definition set_ride_status :: "string \<Rightarrow> string \<Rightarrow> db \<Rightarrow> db" where
  "set_ride_status ride_id status store =
     fst (update_rides ride_id (\<lambda>_. True) (\<lambda>r. r\<lparr>r_status := status\<rparr>) store)"

definition notify_read ::
  "int \<Rightarrow> db \<Rightarrow> string \<Rightarrow> response + (ride \<times> (driver \<times> live_location option) list)" where
  "notify_read now store ride_id =
     (if ride_id = [] then Inl (BadRequest ''ride_id is required'')
      else case rides store ride_id of
        None \<Rightarrow> Inl (NotFound ''Ride not found'')
      | Some r \<Rightarrow>
          if r_status r \<noteq> ''requested''
          then Inl (OkMessage ''Ride not in requested status'')
          else Inr (r, findNearbyDrivers store now (r_pickup_latitude r)
                         (r_pickup_longitude r) (r_vehicle_type r) 15))"

definition notify_none_found :: "string \<Rightarrow> db \<Rightarrow> db \<times> response" where
  "notify_none_found ride_id store =
     (set_ride_status ride_id ''no_drivers_available'' store, OkMessage ''No drivers available'')"

definition notify_finish :: "string \<Rightarrow> nat \<Rightarrow> nat \<Rightarrow> db \<Rightarrow> db \<times> response" where
  "notify_finish ride_id driversFound notificationsCreated store =
     (if notificationsCreated = 0
      then set_ride_status ride_id ''no_drivers_available'' store
      else store,
      OkDispatch driversFound notificationsCreated)"

definition handleNotifyDrivers ::
  "(notification \<Rightarrow> bool) \<Rightarrow> int \<Rightarrow> db \<Rightarrow> string \<Rightarrow> db \<times> response" where
  "handleNotifyDrivers insertOk now store ride_id =
     (case notify_read now store ride_id of
        Inl resp \<Rightarrow> (store, resp)
      | Inr (r, nearbyDrivers) \<Rightarrow>
          if length nearbyDrivers = 0 then notify_none_found ride_id store
          else
            (case notifyLoop insertOk ride_id r nearbyDrivers store 0 of
               (store1, notificationsCreated) \<Rightarrow>
                 notify_finish ride_id (length nearbyDrivers) notificationsCreated store1))"

subsection \<open>handleAcceptRide\<close>

text \<open>
  The handler awaits the store twice. \<open>accept_claim\<close> is the handler up to the first await
  and the checks on its reply: the conditional update of the ride, ended with
  \<open>.select().single()\<close>. It ends the call with a response (\<open>Inl\<close>) or goes on with the updated
  ride (\<open>Inr\<close>). The reply is tested for an error first (status 500) and for an absent row
  second (status 409); an update that matches no row is answered with the error of
  \<open>.single()\<close>, so it ends in the first test. \<open>accept_finish\<close> is the rest: the driver is set
  busy (an error of that update is only logged) and the ride is returned.
\<close>

definition accept_claim :: "int \<Rightarrow> db \<Rightarrow> string \<Rightarrow> string \<Rightarrow> db \<times> (response + ride)" where
  "accept_claim now store ride_id driver_id =
     (if ride_id = [] \<or> driver_id = []
      then (store, Inl (BadRequest ''ride_id and driver_id are required''))
      else
        (case update_ride_where ride_id
                (\<lambda>r. r_status r = ''requested'' \<and> r_driver_id r = None)
                (\<lambda>r. r\<lparr>r_driver_id := Some driver_id, r_status := ''accepted'', r_updated_at := now\<rparr>)
                store of
           (store1, rep) \<Rightarrow>
             (case reply_error rep of
                Some e \<Rightarrow> (store1, Inl (ServerError (''Database error: '' @ e)))
              | None \<Rightarrow>
                  (case reply_data rep of
                     None \<Rightarrow> (store1, Inl (Conflict
                       ''Ride already assigned to another driver or no longer available''))
                   | Some updatedRide \<Rightarrow> (store1, Inr updatedRide)))))"

definition accept_finish :: "db \<Rightarrow> string \<Rightarrow> ride \<Rightarrow> db \<times> response" where
  "accept_finish store driver_id updatedRide =
     (update_driver_status driver_id ''busy'' store, OkRide (Some updatedRide))"

definition handleAcceptRide :: "int \<Rightarrow> db \<Rightarrow> string \<Rightarrow> string \<Rightarrow> db \<times> response" where
  "handleAcceptRide now store ride_id driver_id =
     (case accept_claim now store ride_id driver_id of
        (store1, Inl resp) \<Rightarrow> (store1, resp)
      | (store1, Inr updatedRide) \<Rightarrow> accept_finish store1 driver_id updatedRide)"

text \<open>
  Two calls of the handler running concurrently. A call is waiting to issue its conditional
  update, has claimed the ride and still has to set its driver busy, or has returned. Each
  store call is atomic, so an interleaving of the two calls is a schedule: the list of which
  call takes its next step (\<open>True\<close> the first call, \<open>False\<close> the second).
\<close>

datatype call_state = Waiting | Claimed ride | Returned response

record accept_call =
  c_ride_id :: string
  c_driver_id :: string
  c_now :: int
  c_state :: call_state

fun call_step :: "db \<Rightarrow> accept_call \<Rightarrow> db \<times> accept_call" where
  "call_step store c =
     (case c_state c of
        Waiting \<Rightarrow>
          (case accept_claim (c_now c) store (c_ride_id c) (c_driver_id c) of
             (store1, Inl resp) \<Rightarrow> (store1, c\<lparr>c_state := Returned resp\<rparr>)
           | (store1, Inr updatedRide) \<Rightarrow> (store1, c\<lparr>c_state := Claimed updatedRide\<rparr>))
      | Claimed updatedRide \<Rightarrow>
          (case accept_finish store (c_driver_id c) updatedRide of
             (store1, resp) \<Rightarrow> (store1, c\<lparr>c_state := Returned resp\<rparr>))
      | Returned resp \<Rightarrow> (store, c))"

fun run_two :: "bool list \<Rightarrow> db \<times> accept_call \<times> accept_call \<Rightarrow> db \<times> accept_call \<times> accept_call" where
  "run_two [] st = st"
| "run_two (first # sch) (store, a, b) =
     (if first then (case call_step store a of (store1, a1) \<Rightarrow> run_two sch (store1, a1, b))
      else (case call_step store b of (store1, b1) \<Rightarrow> run_two sch (store1, a, b1)))"

definition succeeded :: "accept_call \<Rightarrow> bool" where
  "succeeded c = (case c_state c of
                    Waiting \<Rightarrow> False
                  | Claimed r \<Rightarrow> True
                  | Returned resp \<Rightarrow> (case resp of OkRide r \<Rightarrow> True | _ \<Rightarrow> False))"

text \<open>A call has lost when it has returned without the ride.\<close>

definition lost :: "accept_call \<Rightarrow> bool" where
  "lost c = (case c_state c of
               Returned resp \<Rightarrow> (case resp of OkRide r \<Rightarrow> False | _ \<Rightarrow> True)
             | _ \<Rightarrow> False)"

definition returned :: "accept_call \<Rightarrow> bool" where
  "returned c = (case c_state c of Returned resp \<Rightarrow> True | _ \<Rightarrow> False)"

subsection \<open>handleUpdateRideStatus\<close>

definition handleUpdateRideStatus :: "int \<Rightarrow> db \<Rightarrow> string \<Rightarrow> string \<Rightarrow> string \<Rightarrow> db \<times> response" where
  "handleUpdateRideStatus now store ride_id status driver_id =
     (if ride_id = [] \<or> status = []
      then (store, BadRequest ''ride_id and status are required'')
      else
        (case update_ride_where ride_id (\<lambda>_. True)
                (\<lambda>r. r\<lparr>r_status := status, r_updated_at := now\<rparr>) store of
           (store1, rep) \<Rightarrow>
             (case reply_error rep of
                Some e \<Rightarrow> (store1, ServerError ''Failed to update ride status'')
              | None \<Rightarrow>
                  (if (status = ''completed'' \<or> status = ''cancelled'') \<and> driver_id \<noteq> []
                   then update_driver_status driver_id ''online'' store1
                   else store1,
                   OkRide (reply_data rep)))))"

text \<open>
  The status sequence of the data model, and what a backward transition along it is. A
  transition to \<open>cancelled\<close> (or to any status outside the sequence) is not backward.
\<close>

definition status_rank :: "string \<Rightarrow> nat option" where
  "status_rank s =
     (if s = ''requested'' then Some 0
      else if s = ''accepted'' then Some 1
      else if s = ''driver_arrived'' then Some 2
      else if s = ''in_progress'' then Some 3
      else if s = ''completed'' then Some 4
      else None)"

definition backward_transition :: "string \<Rightarrow> string \<Rightarrow> bool" where
  "backward_transition old new =
     (case status_rank old of
        None \<Rightarrow> False
      | Some i \<Rightarrow> (case status_rank new of None \<Rightarrow> False | Some j \<Rightarrow> j < i))"

section \<open>The find-nearby-drivers function\<close>

text \<open>
  The second implementation of the driver search, \<open>handleFindNearbyDrivers\<close> of
  \<open>find-nearby-drivers/index.ts\<close>, over the same store. Its first query, of all drivers, only
  feeds the log and the debug information of the response and is left out, as are the
  \<open>search_params\<close> and \<open>debug_info\<close> of the body: a successful response is its list \<open>drivers\<close>.
\<close>

record find_request =
  pickup_latitude :: "real option"
  pickup_longitude :: "real option"
  req_vehicle_type :: "string option"
  req_radius_km :: "real option"

record nearby_driver =
  nd_driver_id :: string
  nd_user_id :: string
  nd_name :: string
  nd_rating :: real
  nd_total_rides :: real
  nd_vehicle :: "vehicle option"
  nd_location :: live_location
  distance_km :: real
  eta_minutes :: real

datatype find_response = FindBadRequest string | FindOk "nearby_driver list"

text \<open>
  A number of the request body is \<open>None\<close> when it is missing; \<open>!x\<close> is true when it is
  missing or \<open>0\<close>.
\<close>

text \<open>Step 4: the first row of each \<open>user_id\<close> in the rows ordered by descending \<open>updated_at\<close>.\<close>

definition latestLocations_find :: "live_location list \<Rightarrow> (string \<rightharpoonup> live_location)" where
  "latestLocations_find liveLocations =
     foldl (\<lambda>m loc. if m (l_user_id loc) = None then m(l_user_id loc \<mapsto> loc) else m)
           Map.empty liveLocations"

text \<open>Step 5: the loop over the online drivers, with its three \<open>continue\<close>s and its \<open>push\<close>.\<close>

fun nearbyLoop ::
  "int \<Rightarrow> real \<Rightarrow> real \<Rightarrow> string \<Rightarrow> real \<Rightarrow> (string \<rightharpoonup> live_location) \<Rightarrow> driver list
     \<Rightarrow> nearby_driver list" where
  "nearbyLoop now lat lng vtype radius latestLocations [] = []"
| "nearbyLoop now lat lng vtype radius latestLocations (d # rest) =
     (case latestLocations (d_user_id d) of
        None \<Rightarrow> nearbyLoop now lat lng vtype radius latestLocations rest
      | Some location \<Rightarrow>
          (let locationAge = now - l_updated_at location in
           if locationAge > 15 * 60 * 1000
           then nearbyLoop now lat lng vtype radius latestLocations rest
           else if vtype \<noteq> ''any'' \<and> map_option v_vehicle_type (d_vehicles d) \<noteq> Some vtype
           then nearbyLoop now lat lng vtype radius latestLocations rest
           else
             (let distance = calculateDistance lat lng (l_latitude location) (l_longitude location)
              in if distance \<le> radius
                 then \<lparr>nd_driver_id = d_id d, nd_user_id = d_user_id d,
                       nd_name = (case d_name d of None \<Rightarrow> ''Unknown Driver''
                                  | Some nm \<Rightarrow> if nm = [] then ''Unknown Driver'' else nm),
                       nd_rating = d_rating d, nd_total_rides = d_total_rides d,
                       nd_vehicle = d_vehicles d, nd_location = location,
                       distance_km = Math_round (distance * 10) / 10,
                       eta_minutes = Math_round (distance * 3)\<rparr>
                      # nearbyLoop now lat lng vtype radius latestLocations rest
                 else nearbyLoop now lat lng vtype radius latestLocations rest)))"

text \<open>
  \<open>handleFindNearbyDrivers\<close>, after the request body is validated: steps 2 to 6.
  \<open>Array.prototype.sort\<close> is stable, so the sort by \<open>a.distance_km - b.distance_km\<close> is the
  stable sort by the key \<open>distance_km\<close>.
\<close>

definition findDrivers :: "int \<Rightarrow> db \<Rightarrow> real \<Rightarrow> real \<Rightarrow> string \<Rightarrow> real \<Rightarrow> nearby_driver list" where
  "findDrivers now store lat lng vtype radius =
     (let onlineDrivers = filter (\<lambda>d. d_status d = ''online'' \<and> d_is_verified d) (drivers store)
      in if onlineDrivers = [] then []
         else
           (let driverUserIds = map d_user_id onlineDrivers;
                liveLocations = order_desc l_updated_at
                  (filter (\<lambda>l. l_user_id l \<in> set driverUserIds) (live_locations store))
            in if liveLocations = [] then []
               else
                 (let latestLocations = latestLocations_find liveLocations;
                      nearbyDrivers = nearbyLoop now lat lng vtype radius latestLocations
                                        onlineDrivers
                  in sort_key distance_km nearbyDrivers)))"

definition handleFindNearbyDrivers :: "int \<Rightarrow> db \<Rightarrow> find_request \<Rightarrow> find_response" where
  "handleFindNearbyDrivers now store body =
     (let vtype = (case req_vehicle_type body of None \<Rightarrow> ''sedan'' | Some v \<Rightarrow> v);
          radius = (case req_radius_km body of None \<Rightarrow> 10 | Some r \<Rightarrow> r)
      in case (pickup_latitude body, pickup_longitude body) of
           (Some lat, Some lng) \<Rightarrow>
             if lat = 0 \<or> lng = 0
             then FindBadRequest ''pickup_latitude and pickup_longitude are required''
             else FindOk (findDrivers now store lat lng vtype radius)
         | _ \<Rightarrow> FindBadRequest ''pickup_latitude and pickup_longitude are required'')"

section \<open>Notions used to state the properties\<close>

text \<open>
  The time of the most recent location sample of a user, \<open>None\<close> when the user has no sample.
\<close>

definition latest_sample_time :: "db \<Rightarrow> string \<Rightarrow> int option" where
  "latest_sample_time store u =
     (let ts = map l_updated_at (filter (\<lambda>l. l_user_id l = u) (live_locations store))
      in if ts = [] then None else Some (Max (set ts)))"

text \<open>The ride \<open>ride_id\<close> exists with the given status and assignment.\<close>

definition ride_is :: "db \<Rightarrow> string \<Rightarrow> string \<Rightarrow> string option \<Rightarrow> bool" where
  "ride_is store ride_id status assigned =
     (case rides store ride_id of
        None \<Rightarrow> False
      | Some r \<Rightarrow> r_status r = status \<and> r_driver_id r = assigned)"

text \<open>
  The invariant of two concurrent accept calls for one ride: nobody has claimed the ride and it
  is still requested and unassigned, or exactly one call has claimed it, the ride is assigned
  to the driver of that call, and the other call is waiting or has returned without the ride.
\<close>

definition race_inv :: "string \<Rightarrow> string \<Rightarrow> string \<Rightarrow> db \<times> accept_call \<times> accept_call \<Rightarrow> bool" where
  "race_inv ride_id dA dB st =
     (case st of (store, a, b) \<Rightarrow>
        c_ride_id a = ride_id \<and> c_driver_id a = dA \<and> c_ride_id b = ride_id \<and> c_driver_id b = dB \<and>
        ((c_state a = Waiting \<and> c_state b = Waiting \<and> ride_is store ride_id ''requested'' None)
         \<or> (succeeded a \<and> (c_state b = Waiting \<or> lost b) \<and>
               ride_is store ride_id ''accepted'' (Some dA))
         \<or> (succeeded b \<and> (c_state a = Waiting \<or> lost a) \<and>
               ride_is store ride_id ''accepted'' (Some dB))))"

text \<open>How many store calls an accept call still has to make, at most.\<close>

definition steps_left :: "accept_call \<Rightarrow> nat" where
  "steps_left c = (case c_state c of Waiting \<Rightarrow> 2 | Claimed r \<Rightarrow> 1 | Returned resp \<Rightarrow> 0)"

section \<open>Example data\<close>

definition empty_store :: db where
  "empty_store = \<lparr>rides = Map.empty, drivers = [], live_locations = [], notifications = [],
     zones = [], fare_matrix = [], rental_fares = [], outstation_fares = [], airport_fares = [],
     trip_completions = []\<rparr>"

definition no_errors :: store_errors where
  "no_errors = \<lparr>zonesError = False, configError = False, completionError = False\<rparr>"

definition sample_ride :: ride where
  "sample_ride = \<lparr>r_customer_id = ''customer-1'', r_driver_id = None,
     r_pickup_latitude = 12.74, r_pickup_longitude = 77.82,
     r_pickup_address = ''Hosur Bus Stand'', r_destination_address = ''Bagalur Road'',
     r_booking_type = ''regular'', r_vehicle_type = ''sedan'', r_fare_amount = 0,
     r_status = ''requested'', r_updated_at = 0, r_scheduled_time = None,
     r_selected_hours = None, r_distance_km = None, r_duration_minutes = None\<rparr>"

text \<open>
  The regular ride of the fare example: base fare 50, 12 per km, surge multiplier 1, platform
  fee 10, no zone configured.
\<close>

definition regular_store :: db where
  "regular_store = empty_store
     \<lparr>rides := [''ride-1'' \<mapsto> sample_ride\<lparr>r_driver_id := Some ''driver-1'',
                                           r_status := ''in_progress''\<rparr>],
      fare_matrix := [\<lparr>fm_booking_type = ''regular'', fm_vehicle_type = ''sedan'',
         fm_base_fare = 50, fm_per_km_rate = 12, fm_minimum_fare = 0, fm_surge_multiplier = 1,
         fm_platform_fee = 10, fm_is_active = True, fm_created_at = 0\<rparr>]\<rparr>"

definition outstation_config :: outstation_fare_row where
  "outstation_config = \<lparr>of_vehicle_type = ''sedan'', of_base_fare = 500, of_per_km_rate = 10,
     of_driver_allowance_per_day = 400, of_daily_km_limit = 300, of_is_active = True,
     of_created_at = 0\<rparr>"

definition outstation_ride :: ride where
  "outstation_ride = sample_ride\<lparr>r_driver_id := Some ''driver-1'',
     r_booking_type := ''outstation'', r_status := ''in_progress''\<rparr>"

definition outstation_store :: db where
  "outstation_store = empty_store
     \<lparr>rides := [''ride-2'' \<mapsto> outstation_ride], outstation_fares := [outstation_config]\<rparr>"

definition inner_zone :: zone where
  "inner_zone = \<lparr>z_name = ''Inner Ring'', z_center_latitude = 0, z_center_longitude = 0,
     z_radius_km = 5, z_is_active = True\<rparr>"

definition outer_zone :: zone where
  "outer_zone = \<lparr>z_name = ''Outer Zone'', z_center_latitude = 0, z_center_longitude = 0,
     z_radius_km = 20, z_is_active = True\<rparr>"

definition suv_driver :: driver where
  "suv_driver = \<lparr>d_id = ''driver-1'', d_user_id = ''user-1'', d_status = ''online'',
     d_is_verified = True, d_rating = 4.5, d_total_rides = 10, d_name = Some ''Ravi'',
     d_vehicles = Some \<lparr>v_vehicle_type = ''suv'', v_registration_number = ''TN70A0001''\<rparr>\<rparr>"

definition sedan_driver :: "string \<Rightarrow> string \<Rightarrow> driver" where
  "sedan_driver did uid = \<lparr>d_id = did, d_user_id = uid, d_status = ''online'',
     d_is_verified = True, d_rating = 4.8, d_total_rides = 25, d_name = Some ''Kumar'',
     d_vehicles = Some \<lparr>v_vehicle_type = ''sedan'', v_registration_number = ''TN70B0002''\<rparr>\<rparr>"

text \<open>A location sample at the pickup point of \<open>sample_ride\<close>.\<close>

definition at_pickup :: "string \<Rightarrow> int \<Rightarrow> live_location" where
  "at_pickup uid t = \<lparr>l_user_id = uid, l_latitude = 12.74, l_longitude = 77.82, l_updated_at = t\<rparr>"

text \<open>
  A requested sedan ride, and one online, verified driver of an SUV, one minute ago at the
  pickup point.
\<close>

definition dispatch_store :: db where
  "dispatch_store = empty_store
     \<lparr>rides := [''ride-3'' \<mapsto> sample_ride], drivers := [suv_driver],
      live_locations := [at_pickup ''user-1'' 1000000]\<rparr>"

definition race_store :: db where
  "race_store = empty_store
     \<lparr>rides := [''ride-3'' \<mapsto> sample_ride],
      drivers := [suv_driver, sedan_driver ''driver-2'' ''user-2'']\<rparr>"

definition accepted_store :: db where
  "accepted_store = dispatch_store
     \<lparr>rides := [''ride-4'' \<mapsto> sample_ride\<lparr>r_driver_id := Some ''driver-1'',
                                           r_status := ''accepted''\<rparr>]\<rparr>"

definition completed_store :: db where
  "completed_store = empty_store
     \<lparr>rides := [''ride-5'' \<mapsto> sample_ride\<lparr>r_driver_id := Some ''driver-1'',
                                           r_status := ''completed''\<rparr>],
      drivers := [suv_driver]\<rparr>"

text \<open>
  Three sedan drivers at the pickup point: the sample of \<open>user-2\<close> is from time 0, the samples of
  \<open>user-3\<close> and \<open>user-4\<close> from \<open>1940000\<close>. At time \<open>2000000\<close> the first sample is more than 33
  minutes old and the other two are one minute old.
\<close>

definition fleet_store :: db where
  "fleet_store = empty_store
     \<lparr>drivers := [sedan_driver ''driver-2'' ''user-2'', sedan_driver ''driver-3'' ''user-3'',
                  sedan_driver ''driver-4'' ''user-4''],
      live_locations := [at_pickup ''user-2'' 0, at_pickup ''user-3'' 1940000,
                         at_pickup ''user-4'' 1940000]\<rparr>"

definition sample_request :: find_request where
  "sample_request = \<lparr>pickup_latitude = Some 12.74, pickup_longitude = Some 77.82,
     req_vehicle_type = Some ''sedan'', req_radius_km = None\<rparr>"

text \<open>Two notification sinks: one that accepts every record, one that rejects every record.\<close>

definition always_ok :: "notification \<Rightarrow> bool" where
  "always_ok n = True"

definition never_ok :: "notification \<Rightarrow> bool" where
  "never_ok n = False"

text \<open>
  Two drivers accept \<open>ride-3\<close> at the same time. In the schedule of \<open>race_outcome\<close> the first
  call issues its update, then the second call issues its update and returns, then the first
  call sets its driver busy and returns.
\<close>

definition call_A :: accept_call where
  "call_A = \<lparr>c_ride_id = ''ride-3'', c_driver_id = ''driver-1'', c_now = 7, c_state = Waiting\<rparr>"

definition call_B :: accept_call where
  "call_B = \<lparr>c_ride_id = ''ride-3'', c_driver_id = ''driver-2'', c_now = 9, c_state = Waiting\<rparr>"

definition race_outcome :: "db \<times> accept_call \<times> accept_call" where
  "race_outcome = run_two [True, False, False, True] (race_store, call_A, call_B)"

section \<open>Properties of the fare service\<close>

subsection \<open>Evaluation lemmas\<close>

lemma inner_ring_name: "is_inner_name ''Inner Ring''"
  by code_simp

lemma not_inner_name: "\<not> is_inner_name ''Outer Zone''"
  by code_simp

lemma distance_same_point: "calculateDistance lat lon lat lon = 0"
  by (simp add: calculateDistance_def atan2_def toRadians_def)

lemma distance_antipodal: "calculateDistance 0 180 0 0 = 6371 * pi"
  by (simp add: calculateDistance_def atan2_def toRadians_def)

subsection \<open>Deadhead charges\<close>

lemma deadhead_none:
  "find (\<lambda>z. is_inner_name (z_name z)) zs = None \<Longrightarrow>
   deadheadCharges (calculateDeadheadCharges distanceFn dropLat dropLng perKmRate zs) = 0"
  by (simp add: calculateDeadheadCharges_def)

lemma deadhead_some:
  "find (\<lambda>z. is_inner_name (z_name z)) zs = Some innerZone \<Longrightarrow>
   deadheadCharges (calculateDeadheadCharges distanceFn dropLat dropLng perKmRate zs) =
     (let d = distanceFn dropLat dropLng (z_center_latitude innerZone) (z_center_longitude innerZone)
      in if d \<le> z_radius_km innerZone then 0 else ((d - z_radius_km innerZone) / 2) * perKmRate)"
  by (simp add: calculateDeadheadCharges_def Let_def)

text \<open>
  Claim C6. \<open>calculateDeadheadCharges\<close> is called with the active zones. If no active zone
  has a name that denotes the inner ring, the deadhead charge is 0. Otherwise, with
  \<open>innerZone\<close> the first such zone and \<open>d\<close> the distance from the drop point to its centre: the
  charge is 0 when \<open>d \<le> radius_km\<close> (the boundary \<open>d = radius_km\<close> included), and it is
  \<open>((d - radius_km) / 2) * per_km_rate\<close> when \<open>d > radius_km\<close>.
\<close>

theorem deadhead_charges_by_inner_zone:
  "(\<not> (\<exists>z \<in> set allZones. z_is_active z \<and> is_inner_name (z_name z)) \<longrightarrow>
      deadheadCharges (calculateDeadheadCharges distanceFn dropLat dropLng perKmRate
        (filter z_is_active allZones)) = 0) \<and>
   (\<forall>innerZone d.
      find (\<lambda>z. is_inner_name (z_name z)) (filter z_is_active allZones) = Some innerZone \<and>
      d = distanceFn dropLat dropLng (z_center_latitude innerZone) (z_center_longitude innerZone) \<longrightarrow>
        (d \<le> z_radius_km innerZone \<longrightarrow>
           deadheadCharges (calculateDeadheadCharges distanceFn dropLat dropLng perKmRate
             (filter z_is_active allZones)) = 0) \<and>
        (d > z_radius_km innerZone \<longrightarrow>
           deadheadCharges (calculateDeadheadCharges distanceFn dropLat dropLng perKmRate
             (filter z_is_active allZones)) = ((d - z_radius_km innerZone) / 2) * perKmRate))"
proof (intro conjI impI allI)
  assume "\<not> (\<exists>z \<in> set allZones. z_is_active z \<and> is_inner_name (z_name z))"
  then have "find (\<lambda>z. is_inner_name (z_name z)) (filter z_is_active allZones) = None"
    by (auto simp: find_None_iff)
  then show "deadheadCharges (calculateDeadheadCharges distanceFn dropLat dropLng perKmRate
        (filter z_is_active allZones)) = 0"
    by (rule deadhead_none)
next
  fix innerZone d
  assume h: "find (\<lambda>z. is_inner_name (z_name z)) (filter z_is_active allZones) = Some innerZone \<and>
      d = distanceFn dropLat dropLng (z_center_latitude innerZone) (z_center_longitude innerZone)"
  assume "d \<le> z_radius_km innerZone"
  with h show "deadheadCharges (calculateDeadheadCharges distanceFn dropLat dropLng perKmRate
             (filter z_is_active allZones)) = 0"
    using deadhead_some [of "filter z_is_active allZones" innerZone distanceFn dropLat dropLng perKmRate]
    by (simp add: Let_def)
next
  fix innerZone d
  assume h: "find (\<lambda>z. is_inner_name (z_name z)) (filter z_is_active allZones) = Some innerZone \<and>
      d = distanceFn dropLat dropLng (z_center_latitude innerZone) (z_center_longitude innerZone)"
  assume "d > z_radius_km innerZone"
  with h show "deadheadCharges (calculateDeadheadCharges distanceFn dropLat dropLng perKmRate
             (filter z_is_active allZones)) = ((d - z_radius_km innerZone) / 2) * perKmRate"
    using deadhead_some [of "filter z_is_active allZones" innerZone distanceFn dropLat dropLng perKmRate]
    by (simp add: Let_def)
qed

text \<open>
  The theorem at four inputs, with the great-circle distance: no inner zone among the active
  zones; a drop at the centre of an inner zone of radius 5; a drop on the boundary (distance 0
  to the centre of a zone of radius 0); and a drop at the antipode of the centre, \<open>6371 * pi\<close>
  km away, outside the zone.
\<close>

theorem deadhead_charges_by_inner_zone_witness:
  "deadheadCharges (calculateDeadheadCharges calculateDistance 0 0 12
        (filter z_is_active [outer_zone])) = 0
   \<and> deadheadCharges (calculateDeadheadCharges calculateDistance 0 0 12
        (filter z_is_active [outer_zone, inner_zone])) = 0
   \<and> deadheadCharges (calculateDeadheadCharges calculateDistance 0 0 12
        (filter z_is_active [inner_zone\<lparr>z_radius_km := 0\<rparr>])) = 0
   \<and> deadheadCharges (calculateDeadheadCharges calculateDistance 0 180 12
        (filter z_is_active [outer_zone, inner_zone])) = ((6371 * pi - 5) / 2) * 12"
proof -
  have big: "5 < 6371 * pi" using pi_ge_two by simp
  have f1: "find (\<lambda>z. is_inner_name (z_name z)) (filter z_is_active [outer_zone, inner_zone])
              = Some inner_zone"
    by (simp add: inner_zone_def outer_zone_def inner_ring_name not_inner_name)
  have f2: "find (\<lambda>z. is_inner_name (z_name z)) (filter z_is_active [inner_zone\<lparr>z_radius_km := 0\<rparr>])
              = Some (inner_zone\<lparr>z_radius_km := 0\<rparr>)"
    by (simp add: inner_zone_def inner_ring_name)
  show ?thesis
    using deadhead_charges_by_inner_zone [of "[outer_zone]" calculateDistance 0 0 12]
      deadhead_charges_by_inner_zone [of "[outer_zone, inner_zone]" calculateDistance 0 0 12]
      deadhead_charges_by_inner_zone [of "[inner_zone\<lparr>z_radius_km := 0\<rparr>]" calculateDistance 0 0 12]
      deadhead_charges_by_inner_zone [of "[outer_zone, inner_zone]" calculateDistance 0 180 12]
      f1 f2 big
    by (simp add: distance_same_point distance_antipodal inner_zone_def outer_zone_def
          not_inner_name)
qed

subsection \<open>The regular fare\<close>

lemma regular_fare_throws:
  "calculateRegularFare distanceFn errs store vt km mins pLat pLng dLat dLng zs \<noteq> Inr fb"
  by (simp add: calculateRegularFare_def Let_def split: list.split)

text \<open>
  Claim C1, at the input of the specification's example: a regular ride, an active fare-matrix
  row with base fare 50, 12 per km, surge multiplier 1 and platform fee 10, no zone, 10 km
  travelled. The claim gives \<open>total_fare = 139.9\<close>. \<open>calculateRegularFare\<close> throws the
  ReferenceError of \<open>validBaseFare\<close>, which \<open>calculateAndStoreTripFare\<close> catches: the result is
  \<open>{ success: false }\<close> with the message of the error, there is no fare breakdown, and the
  store is left as it was.
\<close>

theorem regular_fare_example_fails:
  "calculateAndStoreTripFare calculateDistance no_errors 1000 regular_store ''ride-1'' 10 25
       12.74 77.82 12.80 77.90
     = (regular_store,
        \<lparr>success = False, fareBreakdown = None,
         error = Some (''Cannot access '' @ [CHR 0x27] @ ''validBaseFare'' @ [CHR 0x27]
                         @ '' before initialization'')\<rparr>)"
  by (simp add: calculateAndStoreTripFare_def farePolicy_def calculateRegularFare_def
        regular_store_def empty_store_def sample_ride_def no_errors_def order_desc_def
        failure_def Let_def)

subsection \<open>The outstation fare\<close>

lemma outstation_fare_value:
  assumes "\<not> configError errs"
      and "order_desc of_created_at
             (filter (\<lambda>f. of_vehicle_type f = vt \<and> of_is_active f) (outstation_fares store))
           = cfg # others"
  shows "\<exists>fb. calculateOutstationFare errs store now vt km mins sched = Inr fb \<and>
           distance_fare fb =
             (if 2 * km \<le> of_daily_km_limit cfg * numberOfDays now sched
              then of_daily_km_limit cfg * numberOfDays now sched * of_per_km_rate cfg
              else 2 * km * of_per_km_rate cfg) \<and>
           driver_allowance fb = numberOfDays now sched * of_driver_allowance_per_day cfg \<and>
           base_fare fb = of_base_fare cfg \<and>
           total_fare fb = of_base_fare cfg + distance_fare fb + driver_allowance fb"
  using assms by (simp add: calculateOutstationFare_def Let_def mult.commute)

text \<open>
  Claim C5. For a ride with booking type \<open>outstation\<close> whose vehicle type has an active
  outstation row (\<open>cfg\<close>, the most recently created one), with a reachable store:
  \<open>calculateAndStoreTripFare\<close> succeeds with a breakdown \<open>fb\<close> in which, for
  \<open>days = max 1 (ceil (hoursSince / 24))\<close>, \<open>hoursSince\<close> the hours between the clock and
  \<open>scheduled_time\<close> (or the clock itself when there is none), and \<open>roundTrip\<close> twice the actual
  distance: the distance charge is \<open>daily_km_limit * days * per_km_rate\<close> when
  \<open>roundTrip \<le> daily_km_limit * days\<close> and \<open>roundTrip * per_km_rate\<close> otherwise, the driver
  allowance is \<open>days * driver_allowance_per_day\<close>, and the total is the base fare plus the
  distance charge plus the driver allowance.
\<close>

theorem outstation_fare_policy:
  assumes "rides store rideId = Some r"
      and "r_booking_type r = ''outstation''"
      and "\<not> zonesError errs" and "\<not> configError errs" and "\<not> completionError errs"
      and "order_desc of_created_at
             (filter (\<lambda>f. of_vehicle_type f = r_vehicle_type r \<and> of_is_active f)
                (outstation_fares store)) = cfg # others"
      and "hoursSince = real_of_int \<bar>now - (case r_scheduled_time r of Some t \<Rightarrow> t | None \<Rightarrow> now)\<bar>
                          / (1000 * 60 * 60)"
      and "days = max 1 (real_of_int \<lceil>hoursSince / 24\<rceil>)"
      and "roundTrip = 2 * actualDistanceKm"
  shows "\<exists>fb. snd (calculateAndStoreTripFare distanceFn errs now store rideId actualDistanceKm
                    actualDurationMinutes pickupLat pickupLng dropLat dropLng)
               = \<lparr>success = True, fareBreakdown = Some fb, error = None\<rparr> \<and>
           distance_fare fb =
             (if roundTrip \<le> of_daily_km_limit cfg * days
              then of_daily_km_limit cfg * days * of_per_km_rate cfg
              else roundTrip * of_per_km_rate cfg) \<and>
           driver_allowance fb = days * of_driver_allowance_per_day cfg \<and>
           total_fare fb = of_base_fare cfg + distance_fare fb + driver_allowance fb"
proof -
  have d: "days = numberOfDays now (r_scheduled_time r)"
    by (simp only: assms(7,8) numberOfDays_def Let_def)
  obtain fb where fb: "calculateOutstationFare errs store now (r_vehicle_type r) actualDistanceKm
                          actualDurationMinutes (r_scheduled_time r) = Inr fb"
    and v: "distance_fare fb =
             (if 2 * actualDistanceKm \<le> of_daily_km_limit cfg * days
              then of_daily_km_limit cfg * days * of_per_km_rate cfg
              else 2 * actualDistanceKm * of_per_km_rate cfg)"
       "driver_allowance fb = days * of_driver_allowance_per_day cfg"
       "total_fare fb = of_base_fare cfg + distance_fare fb + driver_allowance fb"
    using outstation_fare_value [OF assms(4) assms(6), of now actualDistanceKm actualDurationMinutes
        "r_scheduled_time r"] d by auto
  have "farePolicy distanceFn errs store now r actualDistanceKm actualDurationMinutes
          pickupLat pickupLng dropLat dropLng (filter z_is_active (zones store)) = Some (Inr fb)"
    using assms(2) fb by (simp add: farePolicy_def)
  then have "snd (calculateAndStoreTripFare distanceFn errs now store rideId actualDistanceKm
                    actualDurationMinutes pickupLat pickupLng dropLat dropLng)
               = \<lparr>success = True, fareBreakdown = Some fb, error = None\<rparr>"
    using assms(1,3,5) by (simp add: calculateAndStoreTripFare_def Let_def)
  with v assms(9) show ?thesis by blast
qed

text \<open>
  The example of the specification: daily limit 300 km, one day, 120 km one way. The round
  trip of 240 km is within the limit and the distance charge is \<open>300 * per_km_rate\<close>.
\<close>

theorem outstation_fare_policy_witness:
  "\<exists>fb. snd (calculateAndStoreTripFare calculateDistance no_errors 1000 outstation_store ''ride-2''
               120 300 12.74 77.82 13.2 77.7)
            = \<lparr>success = True, fareBreakdown = Some fb, error = None\<rparr> \<and>
        distance_fare fb = 300 * 10 \<and> driver_allowance fb = 400 \<and> total_fare fb = 3900"
proof -
  have h1: "rides outstation_store ''ride-2'' = Some outstation_ride"
    by (simp add: outstation_store_def empty_store_def)
  have h2: "r_booking_type outstation_ride = ''outstation''"
    by (simp add: outstation_ride_def)
  have h3: "\<not> zonesError no_errors" and h4: "\<not> configError no_errors"
    and h5: "\<not> completionError no_errors"
    by (simp_all add: no_errors_def)
  have h6: "order_desc of_created_at
              (filter (\<lambda>f. of_vehicle_type f = r_vehicle_type outstation_ride \<and> of_is_active f)
                 (outstation_fares outstation_store)) = outstation_config # []"
    by (simp add: outstation_store_def empty_store_def outstation_ride_def sample_ride_def
          outstation_config_def order_desc_def)
  have h7: "(0::real) = real_of_int \<bar>1000 - (case r_scheduled_time outstation_ride of
                                                Some t \<Rightarrow> t | None \<Rightarrow> 1000)\<bar> / (1000 * 60 * 60)"
    by (simp add: outstation_ride_def sample_ride_def)
  have h8: "(1::real) = max 1 (real_of_int \<lceil>(0::real) / 24\<rceil>)"
    by simp
  have h9: "(240::real) = 2 * 120"
    by simp
  from outstation_fare_policy [OF h1 h2 h3 h4 h5 h6 h7 h8 h9, of calculateDistance 300
      "12.74" "77.82" "13.2" "77.7"]
  obtain fb where
    "snd (calculateAndStoreTripFare calculateDistance no_errors 1000 outstation_store ''ride-2''
            120 300 12.74 77.82 13.2 77.7)
       = \<lparr>success = True, fareBreakdown = Some fb, error = None\<rparr>"
    "distance_fare fb = 300 * 10" "driver_allowance fb = 400" "total_fare fb = 3900"
    by (auto simp add: outstation_config_def)
  then show ?thesis by blast
qed

subsection \<open>Persistence\<close>

text \<open>
  Claim C10. If the insert of the trip-completion record fails, \<open>calculateAndStoreTripFare\<close>
  returns a result (it does not throw) with \<open>success = False\<close> and no breakdown, and the store,
  so also the ride row with its \<open>fare_amount\<close>, \<open>distance_km\<close> and \<open>duration_minutes\<close>, is
  unchanged; when the fare was computed, the error is that of the failed insert. And whenever
  the call changes the \<open>rides\<close> table, it has appended the completion record of the ride.
\<close>

theorem failed_completion_insert_changes_nothing:
  "(let R = calculateAndStoreTripFare distanceFn errs now store rideId actualDistanceKm
              actualDurationMinutes pickupLat pickupLng dropLat dropLng
    in (completionError errs \<longrightarrow>
          fst R = store \<and> success (snd R) = False \<and> fareBreakdown (snd R) = None \<and>
          (\<forall>r fb. rides store rideId = Some r \<and> \<not> zonesError errs \<and>
                  farePolicy distanceFn errs store now r actualDistanceKm actualDurationMinutes
                    pickupLat pickupLng dropLat dropLng (filter z_is_active (zones store))
                  = Some (Inr fb) \<longrightarrow>
                  snd R = failure ''Failed to store trip completion'')) \<and>
       (rides (fst R) \<noteq> rides store \<longrightarrow>
          (\<exists>c. trip_completions (fst R) = trip_completions store @ [c] \<and> tc_ride_id c = rideId)))"
  by (auto simp add: calculateAndStoreTripFare_def Let_def failure_def
           split: option.split sum.split)

text \<open>
  The outstation example: with the insert failing, the result is the failure of the insert and
  the store is unchanged; with the insert succeeding, the ride row changes and the store holds
  one completion record.
\<close>

theorem failed_completion_insert_changes_nothing_witness:
  "calculateAndStoreTripFare calculateDistance (no_errors\<lparr>completionError := True\<rparr>) 1000
          outstation_store ''ride-2'' 120 300 12.74 77.82 13.2 77.7
     = (outstation_store, failure ''Failed to store trip completion'')
   \<and> rides (fst (calculateAndStoreTripFare calculateDistance no_errors 1000
          outstation_store ''ride-2'' 120 300 12.74 77.82 13.2 77.7)) \<noteq> rides outstation_store
   \<and> length (trip_completions (fst (calculateAndStoreTripFare calculateDistance no_errors 1000
          outstation_store ''ride-2'' 120 300 12.74 77.82 13.2 77.7))) = 1"
proof -
  let ?failing = "no_errors\<lparr>completionError := True\<rparr>"
  let ?R = "calculateAndStoreTripFare calculateDistance ?failing 1000
              outstation_store ''ride-2'' 120 300 12.74 77.82 13.2 77.7"
  let ?S = "calculateAndStoreTripFare calculateDistance no_errors 1000
              outstation_store ''ride-2'' 120 300 12.74 77.82 13.2 77.7"
  have ride: "rides outstation_store ''ride-2'' = Some outstation_ride"
    by (simp add: outstation_store_def empty_store_def)
  have cfg: "order_desc of_created_at
              (filter (\<lambda>f. of_vehicle_type f = ''sedan'' \<and> of_is_active f)
                 (outstation_fares outstation_store)) = outstation_config # []"
    by (simp add: outstation_store_def empty_store_def outstation_config_def order_desc_def)
  have "\<not> configError ?failing" by (simp add: no_errors_def)
  from outstation_fare_value [OF this cfg, of 1000 120 300 None]
  obtain fb where "calculateOutstationFare ?failing outstation_store 1000 ''sedan'' 120 300 None
                     = Inr fb"
    by blast
  then have policy: "farePolicy calculateDistance ?failing outstation_store 1000 outstation_ride
                       120 300 12.74 77.82 13.2 77.7 (filter z_is_active (zones outstation_store))
                     = Some (Inr fb)"
    by (simp add: farePolicy_def outstation_ride_def sample_ride_def)
  have fails: "completionError ?failing" "\<not> zonesError ?failing"
    by (simp_all add: no_errors_def)
  from failed_completion_insert_changes_nothing [of calculateDistance ?failing 1000
      outstation_store "''ride-2''" 120 300 "12.74" "77.82" "13.2" "77.7"]
  have "fst ?R = outstation_store" "snd ?R = failure ''Failed to store trip completion''"
    using fails ride policy by (auto simp only: Let_def)
  then have first: "?R = (outstation_store, failure ''Failed to store trip completion'')"
    by (simp add: prod_eq_iff)
  have changed: "rides (fst ?S) \<noteq> rides outstation_store"
  proof
    assume "rides (fst ?S) = rides outstation_store"
    then have "rides (fst ?S) ''ride-2'' = Some outstation_ride" using ride by simp
    then show False
      by (simp add: calculateAndStoreTripFare_def farePolicy_def calculateOutstationFare_def
            outstation_store_def empty_store_def outstation_ride_def sample_ride_def
            outstation_config_def no_errors_def order_desc_def Let_def)
  qed
  from failed_completion_insert_changes_nothing [of calculateDistance no_errors 1000
      outstation_store "''ride-2''" 120 300 "12.74" "77.82" "13.2" "77.7"] changed
  obtain c where "trip_completions (fst ?S) = trip_completions outstation_store @ [c]"
    by (auto simp only: Let_def)
  then have "length (trip_completions (fst ?S)) = 1"
    by (simp add: outstation_store_def empty_store_def)
  with first changed show ?thesis by simp
qed

section \<open>Properties of the driver API\<close>

subsection \<open>The conditional update of an accept call\<close>

lemma update_ride_where_eq:
  "update_ride_where ride_id cond upd store =
     (case rides store ride_id of
        None \<Rightarrow> (store, Reply None (Some PGRST116_message))
      | Some r \<Rightarrow>
          if cond r then (store\<lparr>rides := (rides store)(ride_id \<mapsto> upd r)\<rparr>, Reply (Some (upd r)) None)
          else (store, Reply None (Some PGRST116_message)))"
  by (simp add: update_ride_where_def update_rides_def single_def split: option.split)

lemma accept_claim_requested:
  assumes "ride_id \<noteq> []" "driver_id \<noteq> []"
      and "rides store ride_id = Some r" "r_status r = ''requested''" "r_driver_id r = None"
  shows "accept_claim now store ride_id driver_id =
           (store\<lparr>rides := (rides store)(ride_id \<mapsto>
               r\<lparr>r_driver_id := Some driver_id, r_status := ''accepted'', r_updated_at := now\<rparr>)\<rparr>,
            Inr (r\<lparr>r_driver_id := Some driver_id, r_status := ''accepted'', r_updated_at := now\<rparr>))"
  using assms by (simp add: accept_claim_def update_ride_where_eq)

lemma accept_claim_no_match:
  assumes "ride_id \<noteq> []" "driver_id \<noteq> []"
      and "\<forall>r. rides store ride_id = Some r \<longrightarrow> \<not> (r_status r = ''requested'' \<and> r_driver_id r = None)"
  shows "accept_claim now store ride_id driver_id =
           (store, Inl (ServerError (''Database error: '' @ PGRST116_message)))"
  using assms by (auto simp add: accept_claim_def update_ride_where_eq split: option.split)

lemma rides_accept_finish: "rides (fst (accept_finish store driver_id r)) = rides store"
  by (simp add: accept_finish_def update_driver_status_def)

lemma snd_accept_finish: "snd (accept_finish store driver_id r) = OkRide (Some r)"
  by (simp add: accept_finish_def)

lemma step_waiting_requested:
  assumes "c_ride_id c \<noteq> []" "c_driver_id c \<noteq> []" "c_state c = Waiting"
      and "ride_is store (c_ride_id c) ''requested'' None"
      and "call_step store c = (store1, c1)"
  shows "succeeded c1 \<and> ride_is store1 (c_ride_id c) ''accepted'' (Some (c_driver_id c))
         \<and> c_ride_id c1 = c_ride_id c \<and> c_driver_id c1 = c_driver_id c"
proof -
  from assms(4) obtain r where r: "rides store (c_ride_id c) = Some r" "r_status r = ''requested''"
      "r_driver_id r = None"
    by (auto simp: ride_is_def split: option.splits)
  show ?thesis
    using assms(3,5) accept_claim_requested [OF assms(1,2) r, of "c_now c"]
    by (auto simp: succeeded_def ride_is_def)
qed

lemma step_waiting_accepted:
  assumes "c_ride_id c \<noteq> []" "c_driver_id c \<noteq> []" "c_state c = Waiting"
      and "ride_is store (c_ride_id c) ''accepted'' d"
      and "call_step store c = (store1, c1)"
  shows "lost c1 \<and> store1 = store \<and> c_ride_id c1 = c_ride_id c \<and> c_driver_id c1 = c_driver_id c"
proof -
  from assms(4) have "\<forall>r. rides store (c_ride_id c) = Some r \<longrightarrow>
      \<not> (r_status r = ''requested'' \<and> r_driver_id r = None)"
    by (auto simp: ride_is_def split: option.splits)
  from accept_claim_no_match [OF assms(1,2) this, of "c_now c"] assms(3,5)
  show ?thesis by (auto simp: lost_def)
qed

lemma step_succeeded:
  assumes "succeeded c" and "call_step store c = (store1, c1)"
  shows "succeeded c1 \<and> rides store1 = rides store \<and> c_ride_id c1 = c_ride_id c
         \<and> c_driver_id c1 = c_driver_id c"
  using assms
  by (auto simp: succeeded_def accept_finish_def update_driver_status_def
           split: call_state.splits response.splits)

lemma step_lost:
  assumes "lost c" and "call_step store c = (store1, c1)"
  shows "c1 = c \<and> store1 = store"
  using assms by (auto simp: lost_def split: call_state.splits)

lemma ride_is_cong: "rides s1 = rides s \<Longrightarrow> ride_is s1 k st d = ride_is s k st d"
  by (simp add: ride_is_def)

lemma succeeded_not_waiting: "succeeded c \<Longrightarrow> c_state c \<noteq> Waiting"
  by (auto simp: succeeded_def)

lemma lost_not_waiting: "lost c \<Longrightarrow> c_state c \<noteq> Waiting"
  by (auto simp: lost_def)

lemma lost_not_succeeded: "lost c \<Longrightarrow> \<not> succeeded c"
  by (auto simp: lost_def succeeded_def split: call_state.splits response.splits)

lemma race_inv_sym: "race_inv ride_id dA dB (store, a, b) = race_inv ride_id dB dA (store, b, a)"
  unfolding race_inv_def by (simp only: prod.case) blast

lemma race_inv_step_first:
  assumes "ride_id \<noteq> []" "dA \<noteq> []"
      and "race_inv ride_id dA dB (store, a, b)" and "call_step store a = (store1, a1)"
  shows "race_inv ride_id dA dB (store1, a1, b)"
proof -
  from assms(3) have ids: "c_ride_id a = ride_id" "c_driver_id a = dA" "c_ride_id b = ride_id"
      "c_driver_id b = dB"
    by (simp_all add: race_inv_def)
  have ne: "c_ride_id a \<noteq> []" "c_driver_id a \<noteq> []"
    using ids assms(1,2) by simp_all
  from assms(3) consider
      (fresh) "c_state a = Waiting" "c_state b = Waiting" "ride_is store ride_id ''requested'' None"
    | (wonA) "succeeded a" "c_state b = Waiting \<or> lost b" "ride_is store ride_id ''accepted'' (Some dA)"
    | (wonB) "succeeded b" "c_state a = Waiting \<or> lost a" "ride_is store ride_id ''accepted'' (Some dB)"
    unfolding race_inv_def by (simp only: prod.case) blast
  then show ?thesis
  proof cases
    case fresh
    have "ride_is store (c_ride_id a) ''requested'' None"
      using fresh(3) ids(1) by simp
    from step_waiting_requested [OF ne fresh(1) this assms(4)]
    have "succeeded a1" "ride_is store1 ride_id ''accepted'' (Some dA)"
         "c_ride_id a1 = ride_id" "c_driver_id a1 = dA"
      using ids(1,2) by simp_all
    with fresh(2) ids(3,4) show ?thesis
      unfolding race_inv_def by (simp only: prod.case) blast
  next
    case wonA
    from step_succeeded [OF wonA(1) assms(4)]
    have "succeeded a1" "rides store1 = rides store" "c_ride_id a1 = ride_id" "c_driver_id a1 = dA"
      using ids(1,2) by simp_all
    moreover from this(2) wonA(3) have "ride_is store1 ride_id ''accepted'' (Some dA)"
      by (simp add: ride_is_def)
    ultimately show ?thesis
      using wonA(2) ids(3,4) unfolding race_inv_def by (simp only: prod.case) blast
  next
    case wonB
    from wonB(2) show ?thesis
    proof
      assume w: "c_state a = Waiting"
      have "ride_is store (c_ride_id a) ''accepted'' (Some dB)"
        using wonB(3) ids(1) by simp
      from step_waiting_accepted [OF ne w this assms(4)]
      have "lost a1" "store1 = store" "c_ride_id a1 = ride_id" "c_driver_id a1 = dA"
        using ids(1,2) by simp_all
      with wonB(1,3) ids(3,4) show ?thesis
        unfolding race_inv_def by (simp only: prod.case) blast
    next
      assume "lost a"
      from step_lost [OF this assms(4)] have "a1 = a" "store1 = store" by simp_all
      with assms(3) show ?thesis by (simp only:)
    qed
  qed
qed

lemma race_inv_step_second:
  assumes "ride_id \<noteq> []" "dB \<noteq> []"
      and "race_inv ride_id dA dB (store, a, b)" and "call_step store b = (store1, b1)"
  shows "race_inv ride_id dA dB (store1, a, b1)"
  using race_inv_step_first [OF assms(1,2) _ assms(4), of dA a] assms(3)
  by (simp only: race_inv_sym [of ride_id dA dB])

lemma race_inv_run:
  assumes "ride_id \<noteq> []" "dA \<noteq> []" "dB \<noteq> []"
  shows "race_inv ride_id dA dB st \<Longrightarrow> race_inv ride_id dA dB (run_two sch st)"
proof (induction sch arbitrary: st)
  case Nil
  then show ?case by simp
next
  case (Cons first sch)
  obtain store a b where st: "st = (store, a, b)" by (cases st) auto
  show ?case
  proof (cases first)
    case True
    obtain store1 a1 where s: "call_step store a = (store1, a1)" by (cases "call_step store a") auto
    from race_inv_step_first [OF assms(1,2) _ s] Cons.prems st
    have "race_inv ride_id dA dB (store1, a1, b)" by simp
    from Cons.IH [OF this] show ?thesis using st True s by simp
  next
    case False
    obtain store1 b1 where s: "call_step store b = (store1, b1)" by (cases "call_step store b") auto
    from race_inv_step_second [OF assms(1,3) _ s] Cons.prems st
    have "race_inv ride_id dA dB (store1, a, b1)" by simp
    from Cons.IH [OF this] show ?thesis using st False s by simp
  qed
qed

lemma steps_left_call_step:
  "call_step store c = (store1, c1) \<Longrightarrow> steps_left c1 \<le> steps_left c - 1"
  by (cases "c_state c"; cases "accept_claim (c_now c) store (c_ride_id c) (c_driver_id c)";
      cases "snd (accept_claim (c_now c) store (c_ride_id c) (c_driver_id c))")
     (auto simp: steps_left_def accept_finish_def)

lemma steps_left_run:
  "run_two sch (store, a, b) = (store', a', b') \<Longrightarrow>
     steps_left a' \<le> steps_left a - length (filter (\<lambda>x. x) sch) \<and>
     steps_left b' \<le> steps_left b - length (filter (\<lambda>x. \<not> x) sch)"
proof (induction sch arbitrary: store a b)
  case Nil
  then show ?case by simp
next
  case (Cons first sch)
  show ?case
  proof (cases first)
    case True
    obtain store1 a1 where s: "call_step store a = (store1, a1)" by (cases "call_step store a") auto
    with Cons.prems True have "run_two sch (store1, a1, b) = (store', a', b')" by simp
    from Cons.IH [OF this] steps_left_call_step [OF s] True show ?thesis by simp arith
  next
    case False
    obtain store1 b1 where s: "call_step store b = (store1, b1)" by (cases "call_step store b") auto
    with Cons.prems False have "run_two sch (store1, a, b1) = (store', a', b')" by simp
    from Cons.IH [OF this] steps_left_call_step [OF s] False show ?thesis by simp arith
  qed
qed

lemma returned_iff_no_steps: "returned c \<longleftrightarrow> steps_left c = 0"
  by (auto simp: returned_def steps_left_def split: call_state.splits)


lemma handleAcceptRide_requested:
  assumes "ride_id \<noteq> []" "driver_id \<noteq> []"
      and "rides store ride_id = Some r" "r_status r = ''requested''" "r_driver_id r = None"
  shows "handleAcceptRide now store ride_id driver_id =
           (update_driver_status driver_id ''busy''
              (store\<lparr>rides := (rides store)(ride_id \<mapsto>
                 r\<lparr>r_driver_id := Some driver_id, r_status := ''accepted'', r_updated_at := now\<rparr>)\<rparr>),
            OkRide (Some (r\<lparr>r_driver_id := Some driver_id, r_status := ''accepted'',
                            r_updated_at := now\<rparr>)))"
  by (simp add: handleAcceptRide_def accept_claim_requested [OF assms] accept_finish_def)

lemma handleAcceptRide_no_match:
  assumes "ride_id \<noteq> []" "driver_id \<noteq> []"
      and "\<forall>r. rides store ride_id = Some r \<longrightarrow> \<not> (r_status r = ''requested'' \<and> r_driver_id r = None)"
  shows "handleAcceptRide now store ride_id driver_id =
           (store, ServerError (''Database error: '' @ PGRST116_message))"
  by (simp add: handleAcceptRide_def accept_claim_no_match [OF assms])

lemma race_inv_initial:
  assumes "rides store ride_id = Some r" "r_status r = ''requested''" "r_driver_id r = None"
  shows "race_inv ride_id dA dB
           (store, \<lparr>c_ride_id = ride_id, c_driver_id = dA, c_now = nowA, c_state = Waiting\<rparr>,
                   \<lparr>c_ride_id = ride_id, c_driver_id = dB, c_now = nowB, c_state = Waiting\<rparr>)"
  using assms by (simp add: race_inv_def ride_is_def)

lemma race_inv_facts:
  assumes "race_inv ride_id dA dB (store, a, b)"
  shows "\<not> (succeeded a \<and> succeeded b)"
    and "succeeded a \<Longrightarrow> ride_is store ride_id ''accepted'' (Some dA)"
    and "succeeded b \<Longrightarrow> ride_is store ride_id ''accepted'' (Some dB)"
    and "returned a \<Longrightarrow> returned b \<Longrightarrow> (succeeded a \<and> lost b) \<or> (lost a \<and> succeeded b)"
proof -
  from assms consider
      (fresh) "c_state a = Waiting" "c_state b = Waiting"
    | (wonA) "succeeded a" "c_state b = Waiting \<or> lost b" "ride_is store ride_id ''accepted'' (Some dA)"
    | (wonB) "succeeded b" "c_state a = Waiting \<or> lost a" "ride_is store ride_id ''accepted'' (Some dB)"
    unfolding race_inv_def by (simp only: prod.case) blast
  note cases = this
  show "\<not> (succeeded a \<and> succeeded b)"
    using cases by cases (auto dest: succeeded_not_waiting lost_not_succeeded)
  show "succeeded a \<Longrightarrow> ride_is store ride_id ''accepted'' (Some dA)"
    using cases by cases (auto dest: succeeded_not_waiting lost_not_succeeded)
  show "succeeded b \<Longrightarrow> ride_is store ride_id ''accepted'' (Some dB)"
    using cases by cases (auto dest: succeeded_not_waiting lost_not_succeeded)
  show "returned a \<Longrightarrow> returned b \<Longrightarrow> (succeeded a \<and> lost b) \<or> (lost a \<and> succeeded b)"
    using cases by cases (auto simp: returned_def split: call_state.splits)
qed


subsection \<open>Concurrent accept calls\<close>

text \<open>
  What the conditional update does guarantee. For non-empty ids and two calls for the same
  requested, unassigned ride, under every schedule of their atomic store calls: the two calls
  never both succeed; a call that has succeeded is the one whose driver the ride is assigned
  to; and once each call has been scheduled twice, both have returned, one with the ride and
  the other without it.
\<close>

lemma accept_race_safety:
  assumes "ride_id \<noteq> []" "dA \<noteq> []" "dB \<noteq> []"
      and "rides store ride_id = Some r" "r_status r = ''requested''" "r_driver_id r = None"
      and run: "run_two sch
              (store, \<lparr>c_ride_id = ride_id, c_driver_id = dA, c_now = nowA, c_state = Waiting\<rparr>,
                      \<lparr>c_ride_id = ride_id, c_driver_id = dB, c_now = nowB, c_state = Waiting\<rparr>)
              = (store', a, b)"
  shows "\<not> (succeeded a \<and> succeeded b)"
    and "succeeded a \<Longrightarrow> map_option r_driver_id (rides store' ride_id) = Some (Some dA)"
    and "succeeded b \<Longrightarrow> map_option r_driver_id (rides store' ride_id) = Some (Some dB)"
    and "2 \<le> length (filter (\<lambda>x. x) sch) \<Longrightarrow> 2 \<le> length (filter (\<lambda>x. \<not> x) sch) \<Longrightarrow>
           returned a \<and> returned b \<and> ((succeeded a \<and> lost b) \<or> (lost a \<and> succeeded b))"
proof -
  have "race_inv ride_id dA dB
           (store, \<lparr>c_ride_id = ride_id, c_driver_id = dA, c_now = nowA, c_state = Waiting\<rparr>,
                   \<lparr>c_ride_id = ride_id, c_driver_id = dB, c_now = nowB, c_state = Waiting\<rparr>)"
    using race_inv_initial [OF assms(4,5,6)] .
  from race_inv_run [OF assms(1,2,3) this, of sch] run
  have inv: "race_inv ride_id dA dB (store', a, b)" by simp
  note facts = race_inv_facts [OF inv]
  show "\<not> (succeeded a \<and> succeeded b)" by (rule facts(1))
  show "map_option r_driver_id (rides store' ride_id) = Some (Some dA)" if "succeeded a"
    using facts(2) [OF that] by (auto simp: ride_is_def split: option.splits)
  show "map_option r_driver_id (rides store' ride_id) = Some (Some dB)" if "succeeded b"
    using facts(3) [OF that] by (auto simp: ride_is_def split: option.splits)
  show "returned a \<and> returned b \<and> ((succeeded a \<and> lost b) \<or> (lost a \<and> succeeded b))"
    if "2 \<le> length (filter (\<lambda>x. x) sch)" "2 \<le> length (filter (\<lambda>x. \<not> x) sch)"
  proof -
    from steps_left_run [OF run] that
    have "steps_left a = 0" "steps_left b = 0"
      by (simp_all add: steps_left_def)
    then have ra: "returned a" and rb: "returned b"
      by (simp_all add: returned_iff_no_steps)
    with facts(4) show ?thesis by blast
  qed
qed

subsection \<open>The answer to the driver who comes second\<close>

text \<open>
  Claim C2, at a failing input. The claim says that an accept whose conditional update matches
  no row returns Conflict, so that of two racing calls one succeeds and the other returns
  Conflict. The ride \<open>ride-4\<close> is already accepted by \<open>driver-1\<close>; \<open>driver-2\<close> accepts it. The
  update matches no row and changes nothing, \<open>.single()\<close> reports the empty result as an error,
  and the handler tests the error before it tests the absent row: the answer is 500 with
  \<open>Database error\<close>, not the 409 of the branch written for this case. In the race for
  \<open>ride-3\<close> the first call returns the ride, assigned to its driver, and the second call
  returns the same 500.
\<close>

theorem accept_loser_gets_server_error:
  "map_option r_driver_id (rides accepted_store ''ride-4'') = Some (Some ''driver-1'')
   \<and> handleAcceptRide 5 accepted_store ''ride-4'' ''driver-2''
       = (accepted_store, ServerError (''Database error: '' @ PGRST116_message))
   \<and> snd (handleAcceptRide 5 accepted_store ''ride-4'' ''driver-2'')
       \<noteq> Conflict ''Ride already assigned to another driver or no longer available''
   \<and> c_state (fst (snd race_outcome))
       = Returned (OkRide (Some (sample_ride\<lparr>r_driver_id := Some ''driver-1'',
                                    r_status := ''accepted'', r_updated_at := 7\<rparr>)))
   \<and> c_state (snd (snd race_outcome))
       = Returned (ServerError (''Database error: '' @ PGRST116_message))
   \<and> map_option r_driver_id (rides (fst race_outcome) ''ride-3'') = Some (Some ''driver-1'')"
  by (simp add: handleAcceptRide_def accept_claim_def accept_finish_def update_ride_where_eq
        update_driver_status_def race_outcome_def call_A_def call_B_def race_store_def
        accepted_store_def dispatch_store_def empty_store_def sample_ride_def)

subsection \<open>What the handlers do to the rides table\<close>

lemma rides_sendDriverNotification:
  "rides (fst (sendDriverNotification insertOk store drv ride_id r)) = rides store"
  by (simp add: sendDriverNotification_def Let_def split: option.split)

lemma rides_notifyLoop:
  "rides (fst (notifyLoop insertOk ride_id r ds store n)) = rides store"
proof (induction ds arbitrary: store n)
  case Nil
  then show ?case by simp
next
  case (Cons drv rest)
  obtain store1 sent where s: "sendDriverNotification insertOk store drv ride_id r = (store1, sent)"
    by (cases "sendDriverNotification insertOk store drv ride_id r") auto
  have "rides store1 = rides store"
    using rides_sendDriverNotification [of insertOk store drv ride_id r] s by simp
  with Cons.IH [of store1] s show ?case by simp
qed

lemma rides_set_ride_status:
  "rides (set_ride_status ride_id status store) =
     (case rides store ride_id of None \<Rightarrow> rides store
      | Some r \<Rightarrow> (rides store)(ride_id \<mapsto> r\<lparr>r_status := status\<rparr>))"
  by (simp add: set_ride_status_def update_rides_def split: option.split)

lemma notify_not_requested:
  assumes "ride_id \<noteq> []" "rides store ride_id = Some r" "r_status r \<noteq> ''requested''"
  shows "handleNotifyDrivers insertOk now store ride_id =
           (store, OkMessage ''Ride not in requested status'')"
  using assms by (simp add: handleNotifyDrivers_def notify_read_def)

lemma status_write_rides:
  assumes "rides store k = Some r" "rides (set_ride_status ride_id status store) k = Some r'"
  shows "r' = r \<or> r' = r\<lparr>r_status := status\<rparr>"
  using assms by (auto simp: rides_set_ride_status split: option.splits if_splits)

lemma accept_claim_rides:
  assumes "rides store k = Some r" "rides (fst (accept_claim now store ride_id driver_id)) k = Some r'"
  shows "r' = r \<or> (r_status r = ''requested'' \<and> r_status r' = ''accepted'')"
  using assms
  by (auto simp: accept_claim_def update_ride_where_eq split: option.splits if_splits)

lemma update_status_unchecked:
  assumes "ride_id \<noteq> []" "status \<noteq> []" "rides store ride_id = Some r"
  shows "rides (fst (handleUpdateRideStatus now store ride_id status driver_id)) ride_id
           = Some (r\<lparr>r_status := status, r_updated_at := now\<rparr>)"
  using assms
  by (simp add: handleUpdateRideStatus_def update_ride_where_eq update_driver_status_def)

lemma not_backward_same: "\<not> backward_transition s s"
  by (simp add: backward_transition_def split: option.split)

lemma not_backward_from_requested: "r_status r = ''requested'' \<Longrightarrow> \<not> backward_transition (r_status r) s"
  by (simp add: backward_transition_def status_rank_def split: option.split)

lemma not_backward_to_no_drivers: "\<not> backward_transition s ''no_drivers_available''"
  by (simp add: backward_transition_def status_rank_def split: option.split)


subsection \<open>Dispatch and the vehicle type\<close>

text \<open>
  Claim C3, at a failing input. The ride \<open>ride-3\<close> asks for a sedan; the only online, verified
  driver has an SUV and was at the pickup point a minute ago. The claim says a driver whose
  vehicle type differs from the ride's is never notified. \<open>handleNotifyDrivers\<close> creates the
  notification for that driver and reports one driver found and one notification sent:
  \<open>findNearbyDrivers\<close> of the driver API takes the vehicle type and never compares it.
\<close>

theorem dispatch_notifies_other_vehicle_type:
  "map_option r_vehicle_type (rides dispatch_store ''ride-3'') = Some ''sedan''
   \<and> map (\<lambda>d. (d_user_id d, map_option v_vehicle_type (d_vehicles d))) (drivers dispatch_store)
       = [(''user-1'', Some ''suv'')]
   \<and> handleNotifyDrivers always_ok 1060000 dispatch_store ''ride-3'' =
       (dispatch_store\<lparr>notifications :=
          [\<lparr>n_user_id = ''user-1'', n_type = ''ride_request'', n_title = ''New Ride Request'',
            n_status = ''unread'', n_ride_id = ''ride-3'', n_vehicle_type = ''sedan'',
            n_distance = 0\<rparr>]\<rparr>,
        OkDispatch 1 1)"
  by (simp add: handleNotifyDrivers_def notify_read_def notify_finish_def findNearbyDrivers_def
        latestLocations_api_def sendDriverNotification_def order_desc_def dispatch_store_def
        empty_store_def suv_driver_def at_pickup_def sample_ride_def always_ok_def Let_def
        distance_same_point)

subsection \<open>Dispatch of a ride that is not requested\<close>

text \<open>
  Claim C4 as stated fails on the response: for the accepted ride \<open>ride-4\<close> the handler answers
  \<open>200 { success: true, message: 'Ride not in requested status' }\<close>, a body without the fields
  \<open>drivers_found\<close> and \<open>notifications_sent\<close>; it does not answer with both counters 0. The
  store is unchanged.
\<close>

theorem dispatch_noop_response_has_no_counters:
  "map_option r_status (rides accepted_store ''ride-4'') = Some ''accepted''
   \<and> handleNotifyDrivers always_ok 1060000 accepted_store ''ride-4'' =
       (accepted_store, OkMessage ''Ride not in requested status'')
   \<and> snd (handleNotifyDrivers always_ok 1060000 accepted_store ''ride-4'') \<noteq> OkDispatch 0 0"
  by (simp add: handleNotifyDrivers_def notify_read_def accepted_store_def dispatch_store_def
        empty_store_def sample_ride_def)

text \<open>
  Claim C4, amended. For every ride whose status is not \<open>requested\<close>, \<open>handleNotifyDrivers\<close>
  answers success with the message \<open>Ride not in requested status\<close> and no counters, and
  performs no write: the store it leaves is the store it found, so no notification record is
  created and the ride row is unchanged.
\<close>

theorem dispatch_noop_when_not_requested:
  assumes "ride_id \<noteq> []" and "rides store ride_id = Some r" and "r_status r \<noteq> ''requested''"
  shows "handleNotifyDrivers insertOk now store ride_id =
           (store, OkMessage ''Ride not in requested status'')"
  using assms by (simp add: handleNotifyDrivers_def notify_read_def)

theorem dispatch_noop_when_not_requested_witness:
  "fst (handleNotifyDrivers always_ok 1060000 accepted_store ''ride-4'') = accepted_store
   \<and> notifications (fst (handleNotifyDrivers always_ok 1060000 accepted_store ''ride-4'')) = []
   \<and> snd (handleNotifyDrivers always_ok 1060000 accepted_store ''ride-4'')
       = OkMessage ''Ride not in requested status''"
proof -
  have h1: "''ride-4'' \<noteq> []" by simp
  have h2: "rides accepted_store ''ride-4'' =
              Some (sample_ride\<lparr>r_driver_id := Some ''driver-1'', r_status := ''accepted''\<rparr>)"
    by (simp add: accepted_store_def dispatch_store_def empty_store_def)
  have h3: "r_status (sample_ride\<lparr>r_driver_id := Some ''driver-1'', r_status := ''accepted''\<rparr>)
              \<noteq> ''requested''"
    by simp
  have "notifications accepted_store = []"
    by (simp add: accepted_store_def dispatch_store_def empty_store_def)
  with dispatch_noop_when_not_requested [OF h1 h2 h3, of always_ok 1060000]
  show ?thesis by simp
qed

subsection \<open>Status transitions\<close>

text \<open>
  Claim C9 as stated fails: the generic status update moves the completed ride \<open>ride-5\<close> back to
  \<open>requested\<close>, a backward transition along the status sequence that is not a transition to
  \<open>cancelled\<close>.
\<close>

theorem status_update_moves_backward:
  "map_option r_status (rides completed_store ''ride-5'') = Some ''completed''
   \<and> map_option r_status
        (rides (fst (handleUpdateRideStatus 1000 completed_store ''ride-5'' ''requested'' []))
           ''ride-5'') = Some ''requested''
   \<and> backward_transition ''completed'' ''requested''"
  by (simp add: handleUpdateRideStatus_def update_ride_where_eq completed_store_def
        empty_store_def backward_transition_def status_rank_def)

text \<open>
  Claim C9, amended, on the store calls by which the handlers write the rides table. The
  conditional update of accept leaves every ride as it is or moves it from \<open>requested\<close> to
  \<open>accepted\<close>, and the rest of the accept handler does not write the table. The only status
  that dispatch writes is \<open>no_drivers_available\<close>, which is outside the status sequence: its
  status write, whether issued because no driver was found or because no notification was
  created, leaves every ride as it is or sets that status, and its notification inserts do
  not write the table. So neither accept nor dispatch performs a backward transition. The
  generic update \<open>handleUpdateRideStatus\<close> checks nothing: for an existing ride and a non-empty
  status it stores that status (and the time), whatever the status of the ride is. Each
  statement holds for every store the call may find, whatever ran before it.
\<close>

theorem status_transitions_by_operation:
  "(\<forall>k r r'. rides store k = Some r \<and>
              rides (fst (accept_claim now store ride_id driver_id)) k = Some r' \<longrightarrow>
              (r' = r \<or> (r_status r = ''requested'' \<and> r_status r' = ''accepted'')) \<and>
              \<not> backward_transition (r_status r) (r_status r')) \<and>
   rides (fst (accept_finish store driver_id updatedRide)) = rides store \<and>
   (\<forall>k r r'. rides store k = Some r \<and>
              (rides (fst (notify_none_found ride_id store)) k = Some r' \<or>
               rides (fst (notify_finish ride_id driversFound notificationsCreated store)) k = Some r')
              \<longrightarrow>
              (r' = r \<or> r' = r\<lparr>r_status := ''no_drivers_available''\<rparr>) \<and>
              \<not> backward_transition (r_status r) (r_status r')) \<and>
   rides (fst (notifyLoop insertOk ride_id q nearbyDrivers store created)) = rides store \<and>
   (\<forall>r. ride_id \<noteq> [] \<and> status \<noteq> [] \<and> rides store ride_id = Some r \<longrightarrow>
        rides (fst (handleUpdateRideStatus now store ride_id status driver_id)) ride_id
          = Some (r\<lparr>r_status := status, r_updated_at := now\<rparr>))"
proof (intro conjI allI impI)
  fix k r r'
  assume "rides store k = Some r \<and>
          rides (fst (accept_claim now store ride_id driver_id)) k = Some r'"
  then have c: "r' = r \<or> (r_status r = ''requested'' \<and> r_status r' = ''accepted'')"
    using accept_claim_rides by blast
  then show "r' = r \<or> (r_status r = ''requested'' \<and> r_status r' = ''accepted'')" .
  from c show "\<not> backward_transition (r_status r) (r_status r')"
    using not_backward_same not_backward_from_requested by blast
next
  show "rides (fst (accept_finish store driver_id updatedRide)) = rides store"
    by (rule rides_accept_finish)
next
  fix k r r'
  assume h: "rides store k = Some r \<and>
          (rides (fst (notify_none_found ride_id store)) k = Some r' \<or>
           rides (fst (notify_finish ride_id driversFound notificationsCreated store)) k = Some r')"
  then have "rides (set_ride_status ride_id ''no_drivers_available'' store) k = Some r'
             \<or> rides store k = Some r'"
    by (auto simp: notify_none_found_def notify_finish_def split: if_splits)
  with h have c: "r' = r \<or> r' = r\<lparr>r_status := ''no_drivers_available''\<rparr>"
    using status_write_rides by fastforce
  then show "r' = r \<or> r' = r\<lparr>r_status := ''no_drivers_available''\<rparr>" .
  from c show "\<not> backward_transition (r_status r) (r_status r')"
    using not_backward_same not_backward_to_no_drivers by auto
next
  show "rides (fst (notifyLoop insertOk ride_id q nearbyDrivers store created)) = rides store"
    by (rule rides_notifyLoop)
next
  fix r
  assume "ride_id \<noteq> [] \<and> status \<noteq> [] \<and> rides store ride_id = Some r"
  then show "rides (fst (handleUpdateRideStatus now store ride_id status driver_id)) ride_id
               = Some (r\<lparr>r_status := status, r_updated_at := now\<rparr>)"
    using update_status_unchecked by blast
qed

text \<open>
  The store calls on the examples: the conditional update of an accept of the requested
  \<open>ride-3\<close>; the status write of a dispatch of \<open>ride-3\<close>; and the generic update of the
  completed \<open>ride-5\<close> to \<open>in_progress\<close>.
\<close>

theorem status_transitions_by_operation_witness:
  "\<not> backward_transition ''requested''
        (r_status (sample_ride\<lparr>r_driver_id := Some ''driver-1'', r_status := ''accepted'',
                               r_updated_at := 5\<rparr>))
   \<and> \<not> backward_transition ''requested''
        (r_status (sample_ride\<lparr>r_status := ''no_drivers_available''\<rparr>))
   \<and> rides (fst (handleUpdateRideStatus 1000 completed_store ''ride-5'' ''in_progress''
                    ''driver-1'')) ''ride-5''
      = Some (sample_ride\<lparr>r_driver_id := Some ''driver-1'', r_status := ''in_progress'',
                          r_updated_at := 1000\<rparr>)"
proof -
  have a0: "rides race_store ''ride-3'' = Some sample_ride"
    by (simp add: race_store_def empty_store_def)
  have a1: "rides (fst (accept_claim 5 race_store ''ride-3'' ''driver-1'')) ''ride-3''
              = Some (sample_ride\<lparr>r_driver_id := Some ''driver-1'', r_status := ''accepted'',
                                  r_updated_at := 5\<rparr>)"
    by (simp add: accept_claim_def update_ride_where_eq race_store_def empty_store_def
          sample_ride_def)
  have n0: "rides dispatch_store ''ride-3'' = Some sample_ride"
    by (simp add: dispatch_store_def empty_store_def)
  have n1: "rides (fst (notify_none_found ''ride-3'' dispatch_store)) ''ride-3''
              = Some (sample_ride\<lparr>r_status := ''no_drivers_available''\<rparr>)"
    by (simp add: notify_none_found_def rides_set_ride_status dispatch_store_def empty_store_def)
  have u0: "rides completed_store ''ride-5''
              = Some (sample_ride\<lparr>r_driver_id := Some ''driver-1'', r_status := ''completed''\<rparr>)"
    by (simp add: completed_store_def empty_store_def)
  have req: "r_status sample_ride = ''requested''"
    by (simp add: sample_ride_def)
  note acc = status_transitions_by_operation [where store = race_store and now = 5
      and ride_id = "''ride-3''" and driver_id = "''driver-1''", THEN conjunct1, rule_format,
      of "''ride-3''" sample_ride, OF conjI, OF a0 a1]
  note ntf = status_transitions_by_operation [where store = dispatch_store
      and ride_id = "''ride-3''", THEN conjunct2, THEN conjunct2, THEN conjunct1,
      rule_format, of "''ride-3''" sample_ride, OF conjI, OF n0 disjI1, OF n1]
  note upd = status_transitions_by_operation [where store = completed_store and now = 1000
      and ride_id = "''ride-5''" and status = "''in_progress''" and driver_id = "''driver-1''",
      THEN conjunct2, THEN conjunct2, THEN conjunct2, THEN conjunct2, rule_format,
      OF conjI, OF _ conjI, OF _ _ u0]
  have "rides (fst (handleUpdateRideStatus 1000 completed_store ''ride-5'' ''in_progress''
                    ''driver-1'')) ''ride-5''
      = Some (sample_ride\<lparr>r_driver_id := Some ''driver-1'', r_status := ''in_progress'',
                          r_updated_at := 1000\<rparr>)"
    using upd by simp
  with acc [THEN conjunct2] ntf [THEN conjunct2] req show ?thesis by simp
qed

section \<open>Properties of the driver search\<close>

subsection \<open>Where the drivers found come from\<close>

lemma latestLocations_find_sound:
  "foldl (\<lambda>m loc. if m (l_user_id loc) = None then m(l_user_id loc \<mapsto> loc) else m) m0 locs u = Some loc
   \<Longrightarrow> m0 u = Some loc \<or> (loc \<in> set locs \<and> l_user_id loc = u)"
proof (induction locs arbitrary: m0)
  case Nil
  then show ?case by simp
next
  case (Cons x xs)
  from Cons.IH [OF Cons.prems [simplified]] show ?case
    by (auto split: if_splits)
qed

lemma latestLocations_api_sound:
  "foldl (\<lambda>m loc. case m (l_user_id loc) of
                None \<Rightarrow> m(l_user_id loc \<mapsto> loc)
              | Some existingLocation \<Rightarrow>
                  if l_updated_at loc > l_updated_at existingLocation
                  then m(l_user_id loc \<mapsto> loc) else m) m0 locs u = Some loc
   \<Longrightarrow> m0 u = Some loc \<or> (loc \<in> set locs \<and> l_user_id loc = u)"
proof (induction locs arbitrary: m0)
  case Nil
  then show ?case by simp
next
  case (Cons x xs)
  from Cons.IH [OF Cons.prems [simplified]] show ?case
    by (auto split: if_splits option.splits)
qed

lemma set_order_desc: "set (order_desc key rows) = set rows"
  by (simp add: order_desc_def)

lemma nearbyLoop_sound:
  "nd \<in> set (nearbyLoop now lat lng vtype radius latest ds) \<Longrightarrow>
     \<exists>d \<in> set ds. latest (d_user_id d) = Some (nd_location nd) \<and> nd_user_id nd = d_user_id d \<and>
        now - l_updated_at (nd_location nd) \<le> 15 * 60 * 1000 \<and>
        (vtype = ''any'' \<or> map_option v_vehicle_type (d_vehicles d) = Some vtype) \<and>
        calculateDistance lat lng (l_latitude (nd_location nd)) (l_longitude (nd_location nd)) \<le> radius \<and>
        distance_km nd = Math_round (calculateDistance lat lng (l_latitude (nd_location nd))
                                       (l_longitude (nd_location nd)) * 10) / 10"
proof (induction ds)
  case Nil
  then show ?case by simp
next
  case (Cons d rest)
  then show ?case
    by (auto simp: Let_def split: option.splits if_splits)
qed

lemma latest_sample_time_ge:
  assumes "latest_sample_time store u = Some t" "loc \<in> set (live_locations store)" "l_user_id loc = u"
  shows "l_updated_at loc \<le> t"
proof -
  let ?ts = "map l_updated_at (filter (\<lambda>l. l_user_id l = u) (live_locations store))"
  from assms(1) have t: "t = Max (set ?ts)"
    by (simp add: latest_sample_time_def Let_def split: if_splits)
  have "l_updated_at loc \<in> set ?ts" using assms(2,3) by auto
  then have "l_updated_at loc \<le> Max (set ?ts)" by (intro Max_ge) auto
  with t show ?thesis by simp
qed

lemma findDrivers_sound:
  assumes "nd \<in> set (findDrivers now store lat lng vtype radius)"
  shows "nd_location nd \<in> set (live_locations store) \<and> l_user_id (nd_location nd) = nd_user_id nd \<and>
         now - l_updated_at (nd_location nd) \<le> 15 * 60 * 1000 \<and>
         distance_km nd = Math_round (calculateDistance lat lng (l_latitude (nd_location nd))
                                       (l_longitude (nd_location nd)) * 10) / 10"
proof -
  let ?online = "filter (\<lambda>d. d_status d = ''online'' \<and> d_is_verified d) (drivers store)"
  let ?locs = "order_desc l_updated_at
                 (filter (\<lambda>l. l_user_id l \<in> set (map d_user_id ?online)) (live_locations store))"
  from assms have "nd \<in> set (nearbyLoop now lat lng vtype radius (latestLocations_find ?locs) ?online)"
    by (simp add: findDrivers_def Let_def split: if_splits)
  from nearbyLoop_sound [OF this] obtain d :: driver where
    d: "latestLocations_find ?locs (d_user_id d) = Some (nd_location nd)" "nd_user_id nd = d_user_id d"
       "now - l_updated_at (nd_location nd) \<le> 15 * 60 * 1000"
       "distance_km nd = Math_round (calculateDistance lat lng (l_latitude (nd_location nd))
                                       (l_longitude (nd_location nd)) * 10) / 10"
    by blast
  from latestLocations_find_sound [of Map.empty ?locs "d_user_id d" "nd_location nd"] d(1)
  have "nd_location nd \<in> set ?locs \<and> l_user_id (nd_location nd) = d_user_id d"
    by (simp add: latestLocations_find_def)
  with d show ?thesis by (auto simp: set_order_desc)
qed

lemma findNearbyDrivers_sound:
  assumes "(d, loc) \<in> set (findNearbyDrivers store now lat lng vtype radius)"
  shows "\<exists>l. loc = Some l \<and> l \<in> set (live_locations store) \<and> l_user_id l = d_user_id d \<and>
             now - l_updated_at l \<le> 30 * 60 * 1000"
proof -
  let ?online = "filter (\<lambda>d. d_status d = ''online'' \<and> d_is_verified d) (drivers store)"
  let ?locs = "take 100 (order_desc l_updated_at
                 (filter (\<lambda>l. l_user_id l \<in> set (map d_user_id ?online)) (live_locations store)))"
  from assms obtain l where l: "loc = Some l" "latestLocations_api ?locs (d_user_id d) = Some l"
      "now - l_updated_at l \<le> 30 * 60 * 1000"
    by (auto simp: findNearbyDrivers_def Let_def split: if_splits option.splits)
  from latestLocations_api_sound [of Map.empty ?locs "d_user_id d" l] l(2)
  have "l \<in> set ?locs \<and> l_user_id l = d_user_id d"
    by (simp add: latestLocations_api_def)
  moreover have "set ?locs \<subseteq> set (live_locations store)"
    using set_take_subset [of 100 "order_desc l_updated_at
                 (filter (\<lambda>l. l_user_id l \<in> set (map d_user_id ?online)) (live_locations store))"]
    by (auto simp: set_order_desc)
  ultimately show ?thesis using l by auto
qed


subsection \<open>The search on the example fleet\<close>

lemma sample_request_found:
  "handleFindNearbyDrivers 2000000 fleet_store sample_request
     = FindOk (findDrivers 2000000 fleet_store 12.74 77.82 ''sedan'' 10)"
  by (simp add: handleFindNearbyDrivers_def sample_request_def)

lemma fleet_found:
  "map (\<lambda>nd. (nd_user_id nd, distance_km nd)) (findDrivers 2000000 fleet_store 12.74 77.82 ''sedan'' 10)
     = [(''user-3'', 0), (''user-4'', 0)]"
  by (simp add: findDrivers_def latestLocations_find_def order_desc_def fleet_store_def
        empty_store_def sedan_driver_def at_pickup_def Math_round_def Let_def
        distance_same_point)

subsection \<open>Recency\<close>

text \<open>
  Claim C7. Let \<open>t\<close> be the time of the most recent location sample of the user \<open>u\<close>. If that
  sample is older than 15 minutes at the time of the query, no driver with user id \<open>u\<close> is in
  the list that \<open>handleFindNearbyDrivers\<close> returns; if it is older than 30 minutes, no driver
  with user id \<open>u\<close> is in the result of \<open>findNearbyDrivers\<close> of the driver API. (15 and 30
  minutes are the recency thresholds of the two functions.) Where the sample is plays no role:
  the pickup point and the radius are arbitrary.
\<close>

theorem stale_drivers_are_excluded:
  assumes "latest_sample_time store u = Some t"
  shows "(now - t > 15 * 60 * 1000 \<longrightarrow>
            (\<forall>found. handleFindNearbyDrivers now store body = FindOk found \<longrightarrow>
                     u \<notin> set (map nd_user_id found))) \<and>
         (now - t > 30 * 60 * 1000 \<longrightarrow>
            u \<notin> set (map (\<lambda>p. d_user_id (fst p))
                       (findNearbyDrivers store now pickupLat pickupLng vehicleType radiusKm)))"
proof (intro conjI impI allI)
  fix found
  assume old: "now - t > 15 * 60 * 1000" and ok: "handleFindNearbyDrivers now store body = FindOk found"
  show "u \<notin> set (map nd_user_id found)"
  proof
    assume "u \<in> set (map nd_user_id found)"
    then obtain nd where nd: "nd \<in> set found" "nd_user_id nd = u" by auto
    from ok obtain lat lng vtype radius where "found = findDrivers now store lat lng vtype radius"
      by (auto simp: handleFindNearbyDrivers_def Let_def split: option.splits if_splits)
    with nd(1) findDrivers_sound [of nd now store lat lng vtype radius]
    have s: "nd_location nd \<in> set (live_locations store)" "l_user_id (nd_location nd) = nd_user_id nd"
         "now - l_updated_at (nd_location nd) \<le> 15 * 60 * 1000" by simp_all
    from latest_sample_time_ge [OF assms s(1)] s(2) nd(2)
    have "l_updated_at (nd_location nd) \<le> t" by simp
    with s(3) old show False by simp
  qed
next
  assume old: "now - t > 30 * 60 * 1000"
  show "u \<notin> set (map (\<lambda>p. d_user_id (fst p))
                       (findNearbyDrivers store now pickupLat pickupLng vehicleType radiusKm))"
  proof
    assume "u \<in> set (map (\<lambda>p. d_user_id (fst p))
                       (findNearbyDrivers store now pickupLat pickupLng vehicleType radiusKm))"
    then obtain d loc where p: "(d, loc) \<in> set (findNearbyDrivers store now pickupLat pickupLng
                                                  vehicleType radiusKm)" "d_user_id d = u"
      by auto
    from findNearbyDrivers_sound [OF p(1)] obtain l where
      l: "l \<in> set (live_locations store)" "l_user_id l = d_user_id d" "now - l_updated_at l \<le> 30 * 60 * 1000"
      by blast
    from latest_sample_time_ge [OF assms l(1)] l(2) p(2) have "l_updated_at l \<le> t" by simp
    with l(3) old show False by simp
  qed
qed


text \<open>
  On the example fleet at time \<open>2000000\<close>: the most recent sample of \<open>user-2\<close> is from time 0,
  at the pickup point itself, and \<open>user-2\<close> is in neither result, while the two drivers with
  fresh samples are found.
\<close>

theorem stale_drivers_are_excluded_witness:
  "latest_sample_time fleet_store ''user-2'' = Some 0
   \<and> ''user-2'' \<notin> set (map nd_user_id (findDrivers 2000000 fleet_store 12.74 77.82 ''sedan'' 10))
   \<and> map nd_user_id (findDrivers 2000000 fleet_store 12.74 77.82 ''sedan'' 10)
       = [''user-3'', ''user-4'']
   \<and> ''user-2'' \<notin> set (map (\<lambda>p. d_user_id (fst p))
                         (findNearbyDrivers fleet_store 2000000 12.74 77.82 ''sedan'' 15))"
proof -
  have l: "latest_sample_time fleet_store ''user-2'' = Some 0"
    by (simp add: latest_sample_time_def fleet_store_def empty_store_def at_pickup_def)
  have old15: "(2000000::int) - 0 > 15 * 60 * 1000" and old30: "(2000000::int) - 0 > 30 * 60 * 1000"
    by simp_all
  note T = stale_drivers_are_excluded [OF l, where now = 2000000 and body = sample_request
      and pickupLat = "12.74" and pickupLng = "77.82" and vehicleType = "''sedan''"
      and radiusKm = 15]
  from T [THEN conjunct1, rule_format, OF old15 sample_request_found]
  have a: "''user-2'' \<notin> set (map nd_user_id
                               (findDrivers 2000000 fleet_store 12.74 77.82 ''sedan'' 10))" .
  from T [THEN conjunct2, rule_format, OF old30]
  have b: "''user-2'' \<notin> set (map (\<lambda>p. d_user_id (fst p))
                         (findNearbyDrivers fleet_store 2000000 12.74 77.82 ''sedan'' 15))" .
  have "map nd_user_id (findDrivers 2000000 fleet_store 12.74 77.82 ''sedan'' 10)
          = map fst (map (\<lambda>nd. (nd_user_id nd, distance_km nd))
                       (findDrivers 2000000 fleet_store 12.74 77.82 ''sedan'' 10))"
    by (simp add: comp_def)
  then have c: "map nd_user_id (findDrivers 2000000 fleet_store 12.74 77.82 ''sedan'' 10)
                  = [''user-3'', ''user-4'']"
    by (simp only: fleet_found) simp
  from l a b c show ?thesis by blast
qed

subsection \<open>Order of the result\<close>

text \<open>
  Claim C8 as stated fails: on the example fleet two drivers are found at the same rounded
  distance 0, so the list is not strictly ascending by \<open>distance_km\<close>.
\<close>

theorem nearby_drivers_not_strictly_sorted:
  "handleFindNearbyDrivers 2000000 fleet_store sample_request
     = FindOk (findDrivers 2000000 fleet_store 12.74 77.82 ''sedan'' 10)
   \<and> map distance_km (findDrivers 2000000 fleet_store 12.74 77.82 ''sedan'' 10) = [0, 0]
   \<and> \<not> sorted_wrt (<) (map distance_km (findDrivers 2000000 fleet_store 12.74 77.82 ''sedan'' 10))"
proof -
  have "map distance_km (findDrivers 2000000 fleet_store 12.74 77.82 ''sedan'' 10)
          = map snd (map (\<lambda>nd. (nd_user_id nd, distance_km nd))
                       (findDrivers 2000000 fleet_store 12.74 77.82 ''sedan'' 10))"
    by (simp add: comp_def)
  then have "map distance_km (findDrivers 2000000 fleet_store 12.74 77.82 ''sedan'' 10) = [0, 0]"
    by (simp only: fleet_found) simp
  with sample_request_found show ?thesis by simp
qed

text \<open>
  Claim C8, amended. The list that \<open>handleFindNearbyDrivers\<close> returns is sorted ascending by
  \<open>distance_km\<close>, equal values allowed, and the \<open>distance_km\<close> of each element is the
  great-circle distance from the pickup point to the driver's sample, rounded to one decimal
  (\<open>Math.round(distance * 10) / 10\<close>).
\<close>

theorem nearby_drivers_sorted_by_distance:
  assumes "handleFindNearbyDrivers now store body = FindOk found"
  shows "sorted (map distance_km found) \<and>
         (\<exists>lat lng. pickup_latitude body = Some lat \<and> pickup_longitude body = Some lng \<and>
            (\<forall>nd \<in> set found.
               distance_km nd = Math_round (calculateDistance lat lng (l_latitude (nd_location nd))
                                              (l_longitude (nd_location nd)) * 10) / 10))"
proof -
  from assms obtain lat lng vtype radius where
    b: "pickup_latitude body = Some lat" "pickup_longitude body = Some lng"
    and f: "found = findDrivers now store lat lng vtype radius"
    by (auto simp: handleFindNearbyDrivers_def Let_def split: option.splits if_splits)
  have "sorted (map distance_km found)"
    unfolding f findDrivers_def Let_def by simp
  moreover have "\<forall>nd \<in> set found.
               distance_km nd = Math_round (calculateDistance lat lng (l_latitude (nd_location nd))
                                              (l_longitude (nd_location nd)) * 10) / 10"
    using findDrivers_sound [of _ now store lat lng vtype radius] f by blast
  ultimately show ?thesis using b by blast
qed


theorem nearby_drivers_sorted_by_distance_witness:
  "sorted (map distance_km (findDrivers 2000000 fleet_store 12.74 77.82 ''sedan'' 10))
   \<and> length (findDrivers 2000000 fleet_store 12.74 77.82 ''sedan'' 10) = 2"
proof -
  from nearby_drivers_sorted_by_distance [OF sample_request_found, THEN conjunct1]
  have "sorted (map distance_km (findDrivers 2000000 fleet_store 12.74 77.82 ''sedan'' 10))" .
  moreover have "length (map (\<lambda>nd. (nd_user_id nd, distance_km nd))
                    (findDrivers 2000000 fleet_store 12.74 77.82 ''sedan'' 10)) = 2"
    by (simp only: fleet_found) simp
  ultimately show ?thesis by simp
qed

end
